theory Spec2Isabelle
  imports Complex_Main "HOL-Library.Multiset" "HOL-Library.Log_Nat"
begin

section \<open>JavaScript values used by the aggregation pipeline\<close>

text \<open>
  A property of a JavaScript object that holds text is \<open>undefined\<close> (also when the
  object has no such property), \<open>null\<close> or a string. A string is a well-formed
  Unicode string, given by the bytes of its UTF-8 encoding: concatenation, equality and
  the occurrence of one string in another are the same on the bytes as on the code
  units. Calling a method of \<open>null\<close> or \<open>undefined\<close> throws a \<open>TypeError\<close>, the only
  exception the modelled functions can raise.
\<close>

datatype js_error = TypeError

datatype jsval = Undefined | Null | Str string

definition isString :: "jsval \<Rightarrow> bool" where
  "isString v = (case v of Str s \<Rightarrow> True | Undefined \<Rightarrow> False | Null \<Rightarrow> False)"

fun startsWith :: "string \<Rightarrow> string \<Rightarrow> bool" where
  "startsWith s [] = True"
| "startsWith [] (n # ns) = False"
| "startsWith (c # cs) (n # ns) = (c = n \<and> startsWith cs ns)"

text \<open>\<open>String.prototype.includes\<close>: the needle occurs at some position of the string.\<close>

fun str_includes :: "string \<Rightarrow> string \<Rightarrow> bool" where
  "str_includes [] needle = (needle = [])"
| "str_includes (c # cs) needle = (startsWith (c # cs) needle \<or> str_includes cs needle)"

text \<open>
  Interpolation into a template literal: \<open>`${undefined}`\<close> is the text
  \<open>undefined\<close> and \<open>`${null}`\<close> is the text \<open>null\<close>.
\<close>

definition interpolate :: "jsval \<Rightarrow> string" where
  "interpolate v = (case v of Undefined \<Rightarrow> ''undefined'' | Null \<Rightarrow> ''null'' | Str s \<Rightarrow> s)"

text \<open>Truthiness: \<open>undefined\<close>, \<open>null\<close> and the empty string are falsy.\<close>

definition truthy :: "jsval \<Rightarrow> bool" where
  "truthy v = (case v of Undefined \<Rightarrow> False | Null \<Rightarrow> False | Str s \<Rightarrow> s \<noteq> [])"

text \<open>\<open>a || b\<close>\<close>

definition js_or :: "jsval \<Rightarrow> jsval \<Rightarrow> jsval" where
  "js_or a b = (if truthy a then a else b)"

section \<open>Numbers\<close>

text \<open>
  A number is \<open>NaN\<close> or a binary64 value, given as the rational it denotes. An
  arithmetic operation returns the exact result rounded to 53 significant bits, to the
  nearest value and, half way between two, to the one whose last bit is even. The range
  of the exponent is not modelled: the scores are sums of 0, 5, 10 and a whole number of
  milliseconds of magnitude at most \<open>8.64 * 10^15\<close> divided by \<open>10^10\<close>, so they and
  their differences are either zero or of a magnitude between \<open>2^-86\<close> and \<open>2^21\<close>.
\<close>

datatype jsnum = Num rat | NaN

definition roundHalfEven :: "rat \<Rightarrow> int" where
  "roundHalfEven y =
     (let f = \<lfloor>y\<rfloor>; r = y - of_int f
      in if r < 1 / 2 then f else if 1 / 2 < r then f + 1 else if even f then f else f + 1)"

text \<open>The exponent \<open>e\<close> of a positive rational \<open>a\<close>: \<open>2^e \<le> a < 2^(e+1)\<close>.\<close>

definition exponentOf :: "rat \<Rightarrow> int" where
  "exponentOf a =
     (let (p, q) = quotient_of a; d = bitlen p - bitlen q
      in if 2 powi d \<le> a then d else d - 1)"

definition round64 :: "rat \<Rightarrow> rat" where
  "round64 x =
     (if x = 0 then 0
      else (let a = \<bar>x\<bar>; ulp = 2 powi (exponentOf a - 52)
            in sgn x * of_int (roundHalfEven (a / ulp)) * ulp))"

text \<open>\<open>x + y\<close>, \<open>x - y\<close> and \<open>x / y\<close> for a divisor other than zero.\<close>

definition js_add :: "jsnum \<Rightarrow> jsnum \<Rightarrow> jsnum" where
  "js_add x y =
     (case x of NaN \<Rightarrow> NaN | Num a \<Rightarrow> (case y of NaN \<Rightarrow> NaN | Num b \<Rightarrow> Num (round64 (a + b))))"

definition js_minus :: "jsnum \<Rightarrow> jsnum \<Rightarrow> jsnum" where
  "js_minus x y =
     (case x of NaN \<Rightarrow> NaN | Num a \<Rightarrow> (case y of NaN \<Rightarrow> NaN | Num b \<Rightarrow> Num (round64 (a - b))))"

definition js_divide :: "jsnum \<Rightarrow> rat \<Rightarrow> jsnum" where
  "js_divide x d = (case x of NaN \<Rightarrow> NaN | Num a \<Rightarrow> Num (round64 (a / d)))"

section \<open>Records\<close>

text \<open>
  The common result object built by the adapters (\<open>formatCourtListenerResult\<close>,
  \<open>formatCaselawResult\<close>, \<open>formatPubMedResult\<close>, the scrapers) and read by
  deduplication, ranking and the persistence sink. The field \<open>rid\<close> is the object's
  \<open>id\<close>; \<open>inDatabase\<close> is the truthiness of the property of that name.
\<close>

record result =
  rid :: jsval
  title :: jsval
  content :: jsval
  court :: jsval
  authors :: jsval
  date :: jsval
  url :: jsval
  source :: jsval
  inDatabase :: bool

section \<open>Built-ins of the engine\<close>

text \<open>
  Three built-ins are parameters of the model: \<open>String.prototype.toLowerCase\<close>;
  \<open>Date.parse\<close>, which gives the milliseconds since the epoch or \<open>None\<close> where the
  string is not a date; and the order in which \<open>Array.prototype.sort\<close> leaves an array
  when its comparator is not consistent, which ECMAScript leaves to the implementation.
\<close>

record engine =
  toLowerCase :: "string \<Rightarrow> string"
  dateParse :: "string \<Rightarrow> int option"
  sortOrder :: "(result \<Rightarrow> result \<Rightarrow> js_error + jsnum) \<Rightarrow> result list \<Rightarrow> result list"

section \<open>Deduplication\<close>

text \<open>
  \<open>deduplicateResults\<close> of index.js: the key is the template literal
  \<open>`${result.title}-${result.court || result.source}`\<close>; \<open>seen\<close> is the set of keys
  of the records kept so far.
\<close>

definition dedupKey :: "result \<Rightarrow> string" where
  "dedupKey r = interpolate (title r) @ ''-'' @ interpolate (js_or (court r) (source r))"

fun dedupFilter :: "string set \<Rightarrow> result list \<Rightarrow> result list" where
  "dedupFilter seen [] = []"
| "dedupFilter seen (r # rs) =
     (if dedupKey r \<in> seen then dedupFilter seen rs
      else r # dedupFilter (insert (dedupKey r) seen) rs)"

definition deduplicateResults :: "result list \<Rightarrow> result list" where
  "deduplicateResults rs = dedupFilter {} rs"

section \<open>Ranking\<close>

text \<open>\<open>x.toLowerCase()\<close> where \<open>x\<close> may be \<open>null\<close> or \<open>undefined\<close>.\<close>

definition lowerOf :: "engine \<Rightarrow> jsval \<Rightarrow> js_error + string" where
  "lowerOf e v =
     (case v of
        Undefined \<Rightarrow> Inl TypeError
      | Null \<Rightarrow> Inl TypeError
      | Str s \<Rightarrow> Inr (toLowerCase e s))"

text \<open>\<open>field.toLowerCase().includes(query.toLowerCase()) ? w : 0\<close>\<close>

definition matchScore :: "engine \<Rightarrow> int \<Rightarrow> jsval \<Rightarrow> jsval \<Rightarrow> js_error + int" where
  "matchScore e w field query =
     (case lowerOf e field of
        Inl err \<Rightarrow> Inl err
      | Inr f \<Rightarrow>
         (case lowerOf e query of
            Inl err \<Rightarrow> Inl err
          | Inr q \<Rightarrow> Inr (if str_includes f q then w else 0)))"

text \<open>
  \<open>new Date(s).getTime()\<close>: the time value of a date is a whole number of milliseconds
  of magnitude at most \<open>8.64 * 10^15\<close>, and \<open>NaN\<close> stands for every other outcome.
\<close>

definition getTime :: "engine \<Rightarrow> string \<Rightarrow> jsnum" where
  "getTime e s =
     (case dateParse e s of
        None \<Rightarrow> NaN
      | Some ms \<Rightarrow> if \<bar>ms\<bar> \<le> 8640000000000000 then Num (of_int ms) else NaN)"

text \<open>\<open>a.date ? new Date(a.date).getTime() : 0\<close>\<close>

definition dateScore :: "engine \<Rightarrow> result \<Rightarrow> jsnum" where
  "dateScore e a = (if truthy (date a) then getTime e (interpolate (date a)) else Num 0)"

text \<open>\<open>titleScore + contentScore + (dateScore / 10000000000)\<close>\<close>

definition combine :: "int \<Rightarrow> int \<Rightarrow> jsnum \<Rightarrow> jsnum" where
  "combine titleScore contentScore d =
     js_add (js_add (Num (of_int titleScore)) (Num (of_int contentScore)))
            (js_divide d 10000000000)"

text \<open>
  The comparator passed to \<open>results.sort\<close>, in the source's evaluation order: the two
  title scores, the two content scores, the two date scores, the two totals, and
  \<open>totalScoreB - totalScoreA\<close>.
\<close>

definition compareRelevance :: "engine \<Rightarrow> jsval \<Rightarrow> result \<Rightarrow> result \<Rightarrow> js_error + jsnum" where
  "compareRelevance e query a b =
     (case matchScore e 10 (title a) query of Inl err \<Rightarrow> Inl err | Inr titleScoreA \<Rightarrow>
     (case matchScore e 10 (title b) query of Inl err \<Rightarrow> Inl err | Inr titleScoreB \<Rightarrow>
     (case matchScore e 5 (content a) query of Inl err \<Rightarrow> Inl err | Inr contentScoreA \<Rightarrow>
     (case matchScore e 5 (content b) query of Inl err \<Rightarrow> Inl err | Inr contentScoreB \<Rightarrow>
        (let dateScoreA = dateScore e a;
             dateScoreB = dateScore e b;
             totalScoreA = combine titleScoreA contentScoreA dateScoreA;
             totalScoreB = combine titleScoreB contentScoreB dateScoreB
         in Inr (js_minus totalScoreB totalScoreA))))))"

text \<open>
  The total score of one record, as the comparator computes it for each of its two
  arguments, and its value when it is a number.
\<close>

definition totalScore :: "engine \<Rightarrow> jsval \<Rightarrow> result \<Rightarrow> js_error + jsnum" where
  "totalScore e query a =
     (case matchScore e 10 (title a) query of Inl err \<Rightarrow> Inl err | Inr titleScore \<Rightarrow>
     (case matchScore e 5 (content a) query of Inl err \<Rightarrow> Inl err | Inr contentScore \<Rightarrow>
        Inr (combine titleScore contentScore (dateScore e a))))"

definition scoreValue :: "engine \<Rightarrow> jsval \<Rightarrow> result \<Rightarrow> rat" where
  "scoreValue e query a = (case totalScore e query a of Inr (Num v) \<Rightarrow> v | _ \<Rightarrow> 0)"

text \<open>
  \<open>Array.prototype.sort\<close> with a comparator. A comparator result above zero puts the
  second argument first; zero and a negative number leave the two in their order, and
  \<open>NaN\<close> counts as zero. An exception of the comparator leaves the sort. The insertion
  below compares every element of an array of two or more, as every sorting procedure
  does, and with a consistent comparator its outcome is the one the language fixes: the
  stable ordering.
\<close>

fun insertSorted ::
  "('a \<Rightarrow> 'a \<Rightarrow> js_error + jsnum) \<Rightarrow> 'a \<Rightarrow> 'a list \<Rightarrow> js_error + 'a list" where
  "insertSorted cmp x [] = Inr [x]"
| "insertSorted cmp x (y # ys) =
     (case cmp x y of
        Inl err \<Rightarrow> Inl err
      | Inr NaN \<Rightarrow> Inr (x # y # ys)
      | Inr (Num v) \<Rightarrow>
          if v \<le> 0 then Inr (x # y # ys)
          else (case insertSorted cmp x ys of Inl err \<Rightarrow> Inl err | Inr zs \<Rightarrow> Inr (y # zs)))"

fun insertionSort :: "('a \<Rightarrow> 'a \<Rightarrow> js_error + jsnum) \<Rightarrow> 'a list \<Rightarrow> js_error + 'a list" where
  "insertionSort cmp [] = Inr []"
| "insertionSort cmp (x # xs) =
     (case insertionSort cmp xs of Inl err \<Rightarrow> Inl err | Inr ys \<Rightarrow> insertSorted cmp x ys)"

text \<open>
  The sign of \<open>comparefn(a, b)\<close> when it is a number other than \<open>NaN\<close>, and the
  consistent comparators of ECMAScript: on all \<open>a\<close>, \<open>b\<close>, \<open>c\<close> of the array the
  comparator returns a number that is not \<open>NaN\<close>, every value equals itself, equality
  is symmetric, and equality, less and greater are transitive.
\<close>

definition cfSign :: "('a \<Rightarrow> 'a \<Rightarrow> js_error + jsnum) \<Rightarrow> 'a \<Rightarrow> 'a \<Rightarrow> rat option" where
  "cfSign cmp a b = (case cmp a b of Inr (Num v) \<Rightarrow> Some (sgn v) | _ \<Rightarrow> None)"

definition consistentComparator :: "('a \<Rightarrow> 'a \<Rightarrow> js_error + jsnum) \<Rightarrow> 'a list \<Rightarrow> bool" where
  "consistentComparator cmp xs =
     list_all (\<lambda>a. list_all (\<lambda>b. list_all (\<lambda>c.
         cfSign cmp a b \<noteq> None
       \<and> cfSign cmp a a = Some 0
       \<and> (cfSign cmp a b = Some 0 \<longrightarrow> cfSign cmp b a = Some 0)
       \<and> (cfSign cmp a b = Some 0 \<and> cfSign cmp b c = Some 0 \<longrightarrow> cfSign cmp a c = Some 0)
       \<and> (cfSign cmp a b = Some (- 1) \<and> cfSign cmp b c = Some (- 1)
            \<longrightarrow> cfSign cmp a c = Some (- 1))
       \<and> (cfSign cmp a b = Some 1 \<and> cfSign cmp b c = Some 1 \<longrightarrow> cfSign cmp a c = Some 1))
       xs) xs) xs"

text \<open>
  The sort of the result list: an array of at most one element is left as it is; with a
  consistent comparator the order is the stable one; otherwise it is the order of the
  engine.
\<close>

definition arraySort ::
  "engine \<Rightarrow> (result \<Rightarrow> result \<Rightarrow> js_error + jsnum) \<Rightarrow> result list \<Rightarrow> js_error + result list" where
  "arraySort e cmp xs =
     (case insertionSort cmp xs of
        Inl err \<Rightarrow> Inl err
      | Inr ys \<Rightarrow>
          Inr (if length xs \<le> 1 \<or> consistentComparator cmp xs then ys
               else sortOrder e cmp xs))"

definition sortResultsByRelevance :: "engine \<Rightarrow> result list \<Rightarrow> jsval \<Rightarrow> js_error + result list" where
  "sortResultsByRelevance e rs query = arraySort e (compareRelevance e query) rs"

section \<open>Pagination\<close>

text \<open>
  \<open>Array.prototype.slice(start, end)\<close> on integer arguments: a negative index counts
  from the end of the array, every index is clamped to the array, and an empty range
  gives the empty array.
\<close>

definition js_slice :: "'a list \<Rightarrow> int \<Rightarrow> int \<Rightarrow> 'a list" where
  "js_slice xs startIndex endIndex =
     (let len = int (length xs);
          k = (if startIndex < 0 then max (len + startIndex) 0 else min startIndex len);
          final = (if endIndex < 0 then max (len + endIndex) 0 else min endIndex len)
      in take (nat (final - k)) (drop (nat k) xs))"

text \<open>
  \<open>Math.ceil(results.length / limit)\<close>: dividing by zero gives \<open>Infinity\<close>, or
  \<open>NaN\<close> for \<open>0 / 0\<close>.
\<close>

datatype page_count = Pages int | PagesInfinity | PagesNaN

definition ceilDiv :: "nat \<Rightarrow> int \<Rightarrow> page_count" where
  "ceilDiv len lmt =
     (if lmt = 0 then (if len = 0 then PagesNaN else PagesInfinity)
      else Pages \<lceil>(of_nat len :: rat) / of_int lmt\<rceil>)"

record pagination =
  total :: nat
  page :: int
  limit :: int
  pages :: page_count

record result_page =
  results :: "result list"
  pagination :: pagination

text \<open>
  \<open>paginateResults(results, page, limit)\<close> for an integer page \<open>pg\<close> and an integer
  limit \<open>lmt\<close> (a numeric query-string parameter is coerced to its number by the
  arithmetic, and \<open>parseInt\<close> of an integer is that integer).
\<close>

definition paginateResults :: "result list \<Rightarrow> int \<Rightarrow> int \<Rightarrow> result_page" where
  "paginateResults rs pg lmt =
     (let startIndex = (pg - 1) * lmt;
          endIndex = pg * lmt
      in \<lparr>results = js_slice rs startIndex endIndex,
          pagination = \<lparr>total = length rs, page = pg, limit = lmt,
                        pages = ceilDiv (length rs) lmt\<rparr>\<rparr>)"

section \<open>The internal store and the persistence sink\<close>

text \<open>
  A row of the table \<open>legal_cases\<close>, with the columns of the migration
  \<open>01_create_schema.js\<close>: \<open>title\<close> is \<open>NOT NULL\<close>, every other text column is
  nullable (\<open>None\<close> is SQL's \<open>NULL\<close>), and the table has neither a \<open>date\<close> nor an
  \<open>inDatabase\<close> column.
\<close>

record legal_case =
  col_id :: string
  col_title :: string
  col_content :: "string option"
  col_court :: "string option"
  col_decision_date :: "string option"
  col_judges :: "string option"
  col_url :: "string option"
  col_source :: "string option"
  col_created_at :: string
  col_updated_at :: string

text \<open>The answer of a Supabase query: \<open>{ data, error }\<close>.\<close>

record 'a supabase_response =
  resp_data :: "'a list option"
  resp_error :: "string option"

text \<open>The truthiness of the \<open>error\<close> of an answer: \<open>null\<close> is falsy.\<close>

definition hasError :: "'a supabase_response \<Rightarrow> bool" where
  "hasError resp = (case resp_error resp of None \<Rightarrow> False | Some err \<Rightarrow> True)"

text \<open>A column that is \<open>NULL\<close> arrives as \<open>null\<close>.\<close>

definition nullable :: "string option \<Rightarrow> jsval" where
  "nullable c = (case c of None \<Rightarrow> Null | Some s \<Rightarrow> Str s)"

text \<open>
  What the ranking and the sink read from a row selected with \<open>select('*')\<close>: the
  properties the row lacks are \<open>undefined\<close>.
\<close>

definition rowObject :: "legal_case \<Rightarrow> result" where
  "rowObject row =
     \<lparr>rid = Str (col_id row), title = Str (col_title row), content = nullable (col_content row),
      court = nullable (col_court row), authors = Undefined, date = Undefined,
      url = nullable (col_url row), source = nullable (col_source row), inDatabase = False\<rparr>"

text \<open>
  The store answers a query given by the \<open>or\<close> filter expression and the two
  bounds of \<open>range\<close>.
\<close>

type_synonym case_store = "string \<Rightarrow> int \<Rightarrow> int \<Rightarrow> legal_case supabase_response"

text \<open>The object that \<open>storeResultsInDatabase\<close> upserts for a result.\<close>

record upsert_row =
  up_id :: jsval
  up_title :: jsval
  up_content :: jsval
  up_court :: jsval
  up_date :: jsval
  up_url :: jsval
  up_source :: jsval

definition upsertRow :: "result \<Rightarrow> upsert_row" where
  "upsertRow r =
     \<lparr>up_id = rid r, up_title = title r, up_content = content r, up_court = court r,
      up_date = date r, up_url = url r, up_source = source r\<rparr>"

text \<open>
  The requests that the server sends to the store and to the three APIs, in order. Each
  function below that models an adapter sends its request itself: it returns its result
  together with the log extended by the request.
\<close>

datatype call =
    SearchInternalDatabase string int int
  | SearchCourtListener
  | SearchCaselaw
  | SearchPubMed
  | Upsert "upsert_row list"

definition searchInternalDatabase ::
  "case_store \<Rightarrow> jsval \<Rightarrow> jsval \<Rightarrow> int \<Rightarrow> int \<Rightarrow> call list \<Rightarrow> result list \<times> call list" where
  "searchInternalDatabase store query flt pg lmt sent =
     (let expr = ''title.ilike.%'' @ interpolate query @ ''%, content.ilike.%''
                   @ interpolate query @ ''%'';
          resp = store expr ((pg - 1) * lmt) (pg * lmt - 1);
          sent1 = sent @ [SearchInternalDatabase expr ((pg - 1) * lmt) (pg * lmt - 1)]
      in if hasError resp then ([], sent1)
         else (case resp_data resp of
                 None \<Rightarrow> ([], sent1)
               | Some rows \<Rightarrow> (map rowObject rows, sent1)))"

text \<open>
  \<open>storeResultsInDatabase\<close>: the log is unchanged when it returns without calling the
  store, and otherwise extended by the \<open>upsert\<close> of the new results.
\<close>

definition storeResultsInDatabase :: "result list \<Rightarrow> call list \<Rightarrow> call list" where
  "storeResultsInDatabase rs sent =
     (let newResults = filter (\<lambda>r. \<not> inDatabase r) rs
      in if length newResults = 0 then sent else sent @ [Upsert (map upsertRow newResults)])"

text \<open>
  The three API adapters of index.js. What an API yields for a query and a filter, after
  the formatting and with the empty list for a failed request, is given by \<open>upstream\<close>.
\<close>

record upstream =
  caseStore :: case_store
  courtListener :: "jsval \<Rightarrow> jsval \<Rightarrow> result list"
  caselaw :: "jsval \<Rightarrow> jsval \<Rightarrow> result list"
  pubMed :: "jsval \<Rightarrow> jsval \<Rightarrow> result list"

definition searchCourtListener ::
  "upstream \<Rightarrow> jsval \<Rightarrow> jsval \<Rightarrow> call list \<Rightarrow> result list \<times> call list" where
  "searchCourtListener up query flt sent = (courtListener up query flt, sent @ [SearchCourtListener])"

definition searchCaselaw ::
  "upstream \<Rightarrow> jsval \<Rightarrow> jsval \<Rightarrow> call list \<Rightarrow> result list \<times> call list" where
  "searchCaselaw up query flt sent = (caselaw up query flt, sent @ [SearchCaselaw])"

definition searchPubMed ::
  "upstream \<Rightarrow> jsval \<Rightarrow> jsval \<Rightarrow> call list \<Rightarrow> result list \<times> call list" where
  "searchPubMed up query flt sent = (pubMed up query flt, sent @ [SearchPubMed])"

section \<open>The scraping adapters\<close>

text \<open>
  An HTTP GET is recorded by its host, its path and the search term it carries. The
  web answers a GET with a body, or fails; the robots parser, the HTML extraction
  (given the selector of a result row) and the network are parameters. A function that
  models an adapter sends its requests through \<open>performGet\<close>, which records them.
\<close>

record http_get =
  get_host :: string
  get_path :: string
  get_term :: jsval

type_synonym robots_policy = "string \<Rightarrow> bool"

record web =
  httpGet :: "http_get \<Rightarrow> string option"
  parseRobotsTxt :: "string \<Rightarrow> robots_policy option"
  extractResults :: "string \<Rightarrow> string \<Rightarrow> result list"

record scraper_state =
  robotsTxtCache :: "string \<rightharpoonup> robots_policy"
  fetched :: "http_get list"

definition performGet :: "web \<Rightarrow> http_get \<Rightarrow> scraper_state \<Rightarrow> string option \<times> scraper_state" where
  "performGet w g s = (httpGet w g, s\<lparr>fetched := fetched s @ [g]\<rparr>)"

text \<open>The fallback of \<open>getRobotsTxt\<close> when robots.txt cannot be fetched or parsed.\<close>

definition permissivePolicy :: robots_policy where
  "permissivePolicy path = True"

text \<open>\<open>getRobotsTxt(domain)\<close> of the scraper module.\<close>

definition getRobotsTxt :: "web \<Rightarrow> string \<Rightarrow> scraper_state \<Rightarrow> robots_policy \<times> scraper_state" where
  "getRobotsTxt w domain s =
     (case robotsTxtCache s domain of
        Some policy \<Rightarrow> (policy, s)
      | None \<Rightarrow>
         (let (body, s1) = performGet w \<lparr>get_host = domain, get_path = ''/robots.txt'',
                                         get_term = Undefined\<rparr> s;
              parsed = (case body of None \<Rightarrow> None | Some txt \<Rightarrow> parseRobotsTxt w txt);
              policy = (case parsed of None \<Rightarrow> permissivePolicy | Some p \<Rightarrow> p)
          in (policy, s1\<lparr>robotsTxtCache := (robotsTxtCache s1)(domain \<mapsto> policy)\<rparr>)))"

text \<open>
  \<open>isScrapingAllowed(url)\<close>: \<open>new URL(url)\<close> splits the URL the adapter built into
  its host and its path.
\<close>

definition isScrapingAllowed :: "web \<Rightarrow> string \<Rightarrow> string \<Rightarrow> scraper_state \<Rightarrow> bool \<times> scraper_state" where
  "isScrapingAllowed w host path s =
     (let (robotsTxt, s1) = getRobotsTxt w host s in (robotsTxt path, s1))"

text \<open>
  The common body of \<open>scrapeStanfordLawReview\<close>, \<open>scrapeHarvardLawReview\<close>,
  \<open>scrapeYaleLawJournal\<close> and \<open>scrapeSupremeCourt\<close> of the scraper module, which
  differ in the URL and in the selectors of the extraction.
\<close>

definition scrapeSite ::
  "web \<Rightarrow> string \<Rightarrow> string \<Rightarrow> string \<Rightarrow> string \<Rightarrow> scraper_state
     \<Rightarrow> result list \<times> scraper_state" where
  "scrapeSite w host path selector query s =
     (let (allowed, s1) = isScrapingAllowed w host path s
      in if \<not> allowed then ([], s1)
         else (let (body, s2) = performGet w \<lparr>get_host = host, get_path = path,
                                             get_term = Str query\<rparr> s1
               in case body of
                    None \<Rightarrow> ([], s2)
                  | Some html \<Rightarrow> (extractResults w selector html, s2)))"

definition scrapeStanfordLawReview :: "web \<Rightarrow> string \<Rightarrow> scraper_state \<Rightarrow> result list \<times> scraper_state" where
  "scrapeStanfordLawReview w query =
     scrapeSite w ''lawreview.stanford.edu'' ''/search'' ''.views-row'' query"

definition scrapeHarvardLawReview :: "web \<Rightarrow> string \<Rightarrow> scraper_state \<Rightarrow> result list \<times> scraper_state" where
  "scrapeHarvardLawReview w query = scrapeSite w ''harvardlawreview.org'' ''/'' ''.post'' query"

definition scrapeYaleLawJournal :: "web \<Rightarrow> string \<Rightarrow> scraper_state \<Rightarrow> result list \<times> scraper_state" where
  "scrapeYaleLawJournal w query =
     scrapeSite w ''www.yalelawjournal.org'' ''/search'' ''.article-item'' query"

definition scrapeSupremeCourt :: "web \<Rightarrow> string \<Rightarrow> scraper_state \<Rightarrow> result list \<times> scraper_state" where
  "scrapeSupremeCourt w query =
     scrapeSite w ''www.supremecourt.gov'' ''/search.aspx'' ''.opinion-item'' query"

text \<open>
  \<open>scrapeAllowedSources(query, filter)\<close> of index.js, the function the search handler
  calls: it requests the search page of lawreview.stanford.edu and extracts the results.
\<close>

definition scrapeAllowedSources ::
  "web \<Rightarrow> jsval \<Rightarrow> jsval \<Rightarrow> scraper_state \<Rightarrow> result list \<times> scraper_state" where
  "scrapeAllowedSources w query flt s =
     (let (body, s1) = performGet w \<lparr>get_host = ''lawreview.stanford.edu'',
                                     get_path = ''/search'', get_term = query\<rparr> s
      in case body of
           None \<Rightarrow> ([], s1)
         | Some html \<Rightarrow> (extractResults w ''.search-result'' html, s1))"

section \<open>The search handler and the result cache\<close>

text \<open>
  The number-to-string conversion of a template literal, for integers: decimal digits,
  with a minus sign for a negative number.
\<close>

definition digitChar :: "nat \<Rightarrow> char" where
  "digitChar d = char_of (48 + d)"

function showNat :: "nat \<Rightarrow> string" where
  "showNat n = (if n < 10 then [digitChar n] else showNat (n div 10) @ [digitChar (n mod 10)])"
  by pat_completeness auto
termination
  by (relation "measure (\<lambda>n. n)") auto

declare showNat.simps [simp del]

definition showInt :: "int \<Rightarrow> string" where
  "showInt i = (if i < 0 then CHR ''-'' # showNat (nat (- i)) else showNat (nat i))"

text \<open>
  The query string of a search request. \<open>query\<close> and \<open>filter\<close> are strings or
  absent; \<open>page\<close> and \<open>limit\<close> are absent or decimal integers, given by their value.
\<close>

record request =
  q_query :: "string option"
  q_filter :: "string option"
  q_page :: "int option"
  q_limit :: "int option"

text \<open>A parameter that is absent from the query string is \<open>undefined\<close>.\<close>

definition paramValue :: "string option \<Rightarrow> jsval" where
  "paramValue v = (case v of None \<Rightarrow> Undefined | Some s \<Rightarrow> Str s)"

text \<open>The destructuring defaults \<open>page = 1\<close> and \<open>limit = 20\<close>.\<close>

definition pageOf :: "request \<Rightarrow> int" where
  "pageOf req = (case q_page req of None \<Rightarrow> 1 | Some n \<Rightarrow> n)"

definition limitOf :: "request \<Rightarrow> int" where
  "limitOf req = (case q_limit req of None \<Rightarrow> 20 | Some n \<Rightarrow> n)"

text \<open>\<open>`${query}-${filter}-${page}-${limit}`\<close>\<close>

definition cacheKey :: "request \<Rightarrow> string" where
  "cacheKey req =
     interpolate (paramValue (q_query req)) @ ''-'' @ interpolate (paramValue (q_filter req))
       @ ''-'' @ showInt (pageOf req) @ ''-'' @ showInt (limitOf req)"

text \<open>
  The result cache within the expiry window and below its capacity: what was set under
  a key is what \<open>get\<close> returns.
\<close>

type_synonym search_cache = "string \<rightharpoonup> result_page"

text \<open>
  The state of the server: the result cache, the state of the scraping (the GETs made),
  and the requests sent to the store and the APIs.
\<close>

record server_state =
  searchCache :: search_cache
  scraper :: scraper_state
  calls :: "call list"

datatype response = Json result_page | Status500

text \<open>
  The part of the handler of \<open>GET /api/search\<close> that queries the sources: the store
  first, then the three API adapters (started in this order), then the scraping adapter
  if the results so far are fewer than the limit. It returns \<open>allResults\<close>, the results
  in source order, with the requests sent and the state of the scraping afterwards.
\<close>

definition aggregateSources ::
  "upstream \<Rightarrow> web \<Rightarrow> jsval \<Rightarrow> jsval \<Rightarrow> int \<Rightarrow> int \<Rightarrow> call list \<Rightarrow> scraper_state
     \<Rightarrow> result list \<times> call list \<times> scraper_state" where
  "aggregateSources up w query flt pg lmt sent s =
     (let (dbResults, sent1) = searchInternalDatabase (caseStore up) query flt pg lmt sent;
          (courtListenerResults, sent2) = searchCourtListener up query flt sent1;
          (caselawResults, sent3) = searchCaselaw up query flt sent2;
          (pubMedResults, sent4) = searchPubMed up query flt sent3;
          apiResults = [courtListenerResults, caselawResults, pubMedResults];
          (webResults, s1) =
             (if int (length dbResults + length (concat apiResults)) < lmt
              then scrapeAllowedSources w query flt s
              else ([], s))
      in (dbResults @ concat apiResults @ webResults, sent4, s1))"

text \<open>
  The handler of \<open>GET /api/search\<close>. It returns the response and the state afterwards.
  A cached page is an object, hence truthy, and is returned at once. The sort works in
  place, so the sink receives the ranked array; an exception inside the \<open>try\<close> block is
  answered with status 500.
\<close>

definition searchHandler ::
  "engine \<Rightarrow> upstream \<Rightarrow> web \<Rightarrow> server_state \<Rightarrow> request \<Rightarrow> response \<times> server_state" where
  "searchHandler e up w st req =
     (let query = paramValue (q_query req);
          flt = paramValue (q_filter req);
          pg = pageOf req;
          lmt = limitOf req
      in case searchCache st (cacheKey req) of
           Some cachedResults \<Rightarrow> (Json cachedResults, st)
         | None \<Rightarrow>
            (let (allResults, sent, s1) =
                   aggregateSources up w query flt pg lmt (calls st) (scraper st);
                 uniqueResults = deduplicateResults allResults
             in case sortResultsByRelevance e uniqueResults query of
                  Inl err \<Rightarrow> (Status500, st\<lparr>scraper := s1, calls := sent\<rparr>)
                | Inr sortedResults \<Rightarrow>
                   (let paginatedResults = paginateResults sortedResults pg lmt
                    in (Json paginatedResults,
                        st\<lparr>searchCache := (searchCache st)(cacheKey req \<mapsto> paginatedResults),
                           scraper := s1,
                           calls := storeResultsInDatabase sortedResults sent\<rparr>))))"


section \<open>The citation network\<close>

record citing_ref =
  source_id :: string
  source_title :: string

record cited_ref =
  target_id :: string
  target_title :: string

text \<open>
  The table \<open>citations\<close>, queried by \<open>eq('target_id', id)\<close> and by
  \<open>eq('source_id', id)\<close>.
\<close>

record citation_store =
  selectByTarget :: "string \<Rightarrow> citing_ref supabase_response"
  selectBySource :: "string \<Rightarrow> cited_ref supabase_response"

datatype store_query = EqTargetId string | EqSourceId string

record citation_network =
  citedBy :: "citing_ref list"
  cites :: "cited_ref list"

definition orEmpty :: "'a list option \<Rightarrow> 'a list" where
  "orEmpty d = (case d of None \<Rightarrow> [] | Some xs \<Rightarrow> xs)"

text \<open>
  \<open>getCitationNetwork(id, direction, depth)\<close>: the network returned and the store
  queries run, in order.
\<close>

definition getCitationNetwork ::
  "citation_store \<Rightarrow> string \<Rightarrow> string \<Rightarrow> int \<Rightarrow> citation_network \<times> store_query list" where
  "getCitationNetwork st i direction depth =
     (let citedByResp = selectByTarget st i;
          citesResp = selectBySource st i;
          queries = [EqTargetId i, EqSourceId i]
      in if hasError citedByResp \<or> hasError citesResp
         then (\<lparr>citedBy = [], cites = []\<rparr>, queries)
         else (\<lparr>citedBy = orEmpty (resp_data citedByResp),
                cites = orEmpty (resp_data citesResp)\<rparr>, queries))"

section \<open>Example data\<close>

text \<open>
  An engine for the examples, whose strings are ASCII. Its \<open>toLowerCase\<close> moves the
  letters A to Z to a to z; its \<open>Date.parse\<close> knows four ISO instants and takes the
  other strings of the examples as no dates; its order for an inconsistent comparator is
  the order of the input, and no example sorts with an inconsistent comparator.
\<close>

definition asciiLowerChar :: "char \<Rightarrow> char" where
  "asciiLowerChar c =
     (case map_of (zip ''ABCDEFGHIJKLMNOPQRSTUVWXYZ'' ''abcdefghijklmnopqrstuvwxyz'') c of
        None \<Rightarrow> c
      | Some l \<Rightarrow> l)"

definition asciiLowerCase :: "string \<Rightarrow> string" where
  "asciiLowerCase s = map asciiLowerChar s"

definition exampleParseDate :: "string \<Rightarrow> int option" where
  "exampleParseDate s =
     (if s = ''1970-01-01T00:00:00.000Z'' then Some 0
      else if s = ''1978-07-12T22:06:11.968Z'' then Some 269129171968
      else if s = ''1981-09-12T07:52:51.968Z'' then Some 369129171968
      else if s = ''2001-09-09T01:46:40.000Z'' then Some 1000000000000
      else None)"

definition exampleEngine :: engine where
  "exampleEngine =
     \<lparr>toLowerCase = asciiLowerCase, dateParse = exampleParseDate, sortOrder = (\<lambda>cmp xs. xs)\<rparr>"

definition blankResult :: result where
  "blankResult =
     \<lparr>rid = Undefined, title = Undefined, content = Undefined, court = Undefined,
      authors = Undefined, date = Undefined, url = Undefined, source = Undefined,
      inDatabase = False\<rparr>"

definition mirandaCase :: result where
  "mirandaCase =
     blankResult\<lparr>rid := Str ''cl-1'', title := Str ''Miranda v. Arizona'',
                 content := Str ''custodial interrogation'', court := Str ''Supreme Court'',
                 date := Str ''1970-01-01T00:00:00.000Z'', source := Str ''CourtListener''\<rparr>"

definition escobedoCase :: result where
  "escobedoCase =
     blankResult\<lparr>rid := Str ''cap-2'', title := Str ''Escobedo v. Illinois'',
                 content := Str ''right to counsel'', court := Str ''Supreme Court'',
                 date := Str ''2001-09-09T01:46:40.000Z'',
                 source := Str ''Caselaw Access Project''\<rparr>"

text \<open>
  Two cases whose exact totals for the query \<open>miranda\<close> are equal, 10 + 26.9129171968
  and 36.9129171968, and whose binary64 totals differ.
\<close>

definition mirandaReview :: result where
  "mirandaReview =
     blankResult\<lparr>rid := Str ''cl-3'', title := Str ''Miranda Revisited'',
                 content := Str ''confessions'', court := Str ''Court of Appeals'',
                 date := Str ''1978-07-12T22:06:11.968Z'', source := Str ''CourtListener''\<rparr>"

definition dickersonCase :: result where
  "dickersonCase =
     blankResult\<lparr>rid := Str ''cap-4'', title := Str ''Dickerson v. United States'',
                 content := Str ''voluntariness'', court := Str ''Supreme Court'',
                 date := Str ''1981-09-12T07:52:51.968Z'',
                 source := Str ''Caselaw Access Project''\<rparr>"

definition undatedArticle :: result where
  "undatedArticle =
     blankResult\<lparr>rid := Str ''stanford-7'', title := Str ''Miranda at Fifty'',
                 content := Str ''a survey'', date := Str ''forthcoming'',
                 source := Str ''Stanford Law Review''\<rparr>"

definition smithJonesCase :: result where
  "smithJonesCase =
     blankResult\<lparr>rid := Str ''cl-10'', title := Str ''State v. Smith-Jones'',
                 content := Str ''appeal'', court := Str ''County Court'',
                 source := Str ''CourtListener''\<rparr>"

definition smithCase :: result where
  "smithCase =
     blankResult\<lparr>rid := Str ''cap-11'', title := Str ''State v. Smith'',
                 content := Str ''trial'', court := Str ''Jones-County Court'',
                 source := Str ''Caselaw Access Project''\<rparr>"

text \<open>A stored case whose \<open>content\<close> column is \<open>NULL\<close>, and a store that holds it.\<close>

definition storedCase :: legal_case where
  "storedCase =
     \<lparr>col_id = ''7f3c'', col_title = ''Gideon v. Wainwright'', col_content = None,
      col_court = Some ''Supreme Court'', col_decision_date = Some ''1963-03-18'',
      col_judges = None, col_url = None, col_source = Some ''CourtListener'',
      col_created_at = ''2024-01-01T00:00:00Z'', col_updated_at = ''2024-01-01T00:00:00Z''\<rparr>"

definition exampleStore :: case_store where
  "exampleStore expr lo hi = \<lparr>resp_data = Some [storedCase], resp_error = None\<rparr>"


definition exampleUpstream :: upstream where
  "exampleUpstream =
     \<lparr>caseStore = exampleStore,
      courtListener = (\<lambda>query flt. [mirandaCase]),
      caselaw = (\<lambda>query flt. [escobedoCase]),
      pubMed = (\<lambda>query flt. [])\<rparr>"


text \<open>An upstream in which only the store has a result.\<close>

definition storeOnlyUpstream :: upstream where
  "storeOnlyUpstream =
     \<lparr>caseStore = exampleStore,
      courtListener = (\<lambda>query flt. []),
      caselaw = (\<lambda>query flt. []),
      pubMed = (\<lambda>query flt. [])\<rparr>"

definition gideonRequest :: request where
  "gideonRequest =
     \<lparr>q_query = Some ''gideon'', q_filter = None, q_page = None, q_limit = None\<rparr>"



definition mirandaRequest :: request where
  "mirandaRequest =
     \<lparr>q_query = Some ''miranda'', q_filter = None, q_page = None, q_limit = Some 2\<rparr>"


text \<open>A citation table in which a document both cites and is cited.\<close>

definition exampleCitations :: citation_store where
  "exampleCitations =
     \<lparr>selectByTarget = (\<lambda>i. \<lparr>resp_data = Some [\<lparr>source_id = ''a1'', source_title = ''Dickerson''\<rparr>],
                               resp_error = None\<rparr>),
      selectBySource = (\<lambda>i. \<lparr>resp_data = Some [\<lparr>target_id = ''b2'', target_title = ''Escobedo''\<rparr>],
                               resp_error = None\<rparr>)\<rparr>"

text \<open>
  A web whose robots.txt files forbid every path and whose pages hold one result, and a
  web that answers no request.
\<close>

definition forbidAll :: robots_policy where
  "forbidAll path = False"

definition forbiddenWeb :: web where
  "forbiddenWeb =
     \<lparr>httpGet = (\<lambda>g. Some ''body''),
      parseRobotsTxt = (\<lambda>txt. Some forbidAll),
      extractResults = (\<lambda>selector html. [undatedArticle])\<rparr>"

definition silentWeb :: web where
  "silentWeb =
     \<lparr>httpGet = (\<lambda>g. None),
      parseRobotsTxt = (\<lambda>txt. None),
      extractResults = (\<lambda>selector html. [])\<rparr>"

definition freshScraper :: scraper_state where
  "freshScraper = \<lparr>robotsTxtCache = Map.empty, fetched = []\<rparr>"

definition freshServer :: server_state where
  "freshServer = \<lparr>searchCache = Map.empty, scraper = freshScraper, calls = []\<rparr>"

section \<open>Properties of pagination\<close>

lemma ceiling_quotient:
  fixes b :: int
  assumes "0 < b"
  shows "\<lceil>(of_nat len :: rat) / of_int b\<rceil> = (int len + b - 1) div b"
proof -
  define a where "a = int len + b - 1"
  define n where "n = a div b"
  define r where "r = a mod b"
  have eq: "int len + b - 1 = b * n + r"
    unfolding n_def r_def a_def by simp
  have lo: "0 \<le> r" and hi: "r < b"
    using assms by (simp_all add: r_def)
  have "b * n - b < int len"
    using eq lo by linarith
  then have below: "(n - 1) * b < int len"
    by (simp add: algebra_simps)
  have "int len \<le> b * n"
    using eq lo hi by linarith
  then have above: "int len \<le> n * b"
    by (simp add: algebra_simps)
  have "(of_int ((n - 1) * b) :: rat) < of_int (int len)"
    using below by (simp only: of_int_less_iff)
  then have l: "(of_int n - 1 :: rat) < of_nat len / of_int b"
    using assms by (simp add: pos_less_divide_eq)
  have "(of_int (int len) :: rat) \<le> of_int (n * b)"
    using above by (simp only: of_int_le_iff)
  then have u: "(of_nat len :: rat) / of_int b \<le> of_int n"
    using assms by (simp add: pos_divide_le_eq)
  from l u have "\<lceil>(of_nat len :: rat) / of_int b\<rceil> = n"
    by (simp add: ceiling_eq_iff)
  then show ?thesis by (simp add: n_def a_def)
qed

lemma ceilDiv_pos:
  assumes "0 < lmt"
  shows "ceilDiv len lmt = Pages ((int len + lmt - 1) div lmt)"
  using assms ceiling_quotient[OF assms, of len] by (simp add: ceilDiv_def)

lemma beyond_last_page:
  fixes lmt :: int
  assumes "0 < lmt" "(int len + lmt - 1) div lmt < pg"
  shows "int len \<le> (pg - 1) * lmt"
proof -
  define n where "n = (int len + lmt - 1) div lmt"
  define r where "r = (int len + lmt - 1) mod lmt"
  have eq: "int len + lmt - 1 = lmt * n + r"
    unfolding n_def r_def by simp
  have hi: "r < lmt" using assms by (simp add: r_def)
  have "n \<le> pg - 1" using assms by (simp add: n_def)
  then have "lmt * n \<le> lmt * (pg - 1)" using assms by simp
  moreover have "lmt * (pg - 1) = (pg - 1) * lmt" by simp
  ultimately show ?thesis using eq hi by linarith
qed

text \<open>A slice that starts inside or after the array and has a length is a take of a drop.\<close>

lemma js_slice_window:
  assumes "0 \<le> a" "0 \<le> n"
  shows "js_slice xs a (a + n) = take (nat n) (drop (nat a) xs)"
proof (cases "a < int (length xs)")
  case True
  with assms have "nat (min (a + n) (int (length xs)) - a) = min (nat n) (length xs - nat a)"
    by (auto simp: min_def nat_diff_distrib)
  with True assms show ?thesis
    by (auto simp: js_slice_def Let_def min_def)
next
  case False
  with assms show ?thesis
    by (auto simp: js_slice_def Let_def min_def)
qed

text \<open>
  C6. For a ranked sequence of length \<open>L\<close>, a limit above zero and a page from one on,
  \<open>paginateResults\<close> returns the elements at the positions from \<open>(page - 1) * limit\<close>
  up to, not including, \<open>page * limit\<close>, reports \<open>total = L\<close> and
  \<open>pages = ceil(L / limit)\<close>, and a page after the last one has no results and the
  same total. The function has no error result.
\<close>

theorem paginateResults_page:
  assumes "0 < lmt" and "1 \<le> pg"
  shows "results (paginateResults rs pg lmt) = take (nat lmt) (drop (nat ((pg - 1) * lmt)) rs)
       \<and> total (pagination (paginateResults rs pg lmt)) = length rs
       \<and> pages (pagination (paginateResults rs pg lmt))
           = Pages \<lceil>real (length rs) / real_of_int lmt\<rceil>
       \<and> pages (pagination (paginateResults rs pg lmt))
           = Pages ((int (length rs) + lmt - 1) div lmt)
       \<and> ((int (length rs) + lmt - 1) div lmt < pg \<longrightarrow>
            results (paginateResults rs pg lmt) = []
            \<and> total (pagination (paginateResults rs pg lmt)) = length rs)"
proof -
  have split: "pg * lmt = (pg - 1) * lmt + lmt" by (simp add: algebra_simps)
  have start: "0 \<le> (pg - 1) * lmt" using assms by simp
  have slice: "results (paginateResults rs pg lmt)
                 = take (nat lmt) (drop (nat ((pg - 1) * lmt)) rs)"
    using assms start js_slice_window[of "(pg - 1) * lmt" lmt rs]
    by (simp add: paginateResults_def Let_def split)
  have tot: "total (pagination (paginateResults rs pg lmt)) = length rs"
    by (simp add: paginateResults_def Let_def)
  have pgs: "pages (pagination (paginateResults rs pg lmt))
               = Pages ((int (length rs) + lmt - 1) div lmt)"
    using assms by (simp add: paginateResults_def Let_def ceilDiv_pos)
  have "real (length rs) / real_of_int lmt
          = of_rat ((of_nat (length rs) :: rat) / of_int lmt)"
    by (simp add: of_rat_divide)
  then have "\<lceil>real (length rs) / real_of_int lmt\<rceil>
               = \<lceil>(of_nat (length rs) :: rat) / of_int lmt\<rceil>"
    by (simp only: of_rat_ceiling)
  then have pgr: "pages (pagination (paginateResults rs pg lmt))
                    = Pages \<lceil>real (length rs) / real_of_int lmt\<rceil>"
    using assms by (simp add: paginateResults_def Let_def ceilDiv_def)
  have empty: "results (paginateResults rs pg lmt) = []"
    if "(int (length rs) + lmt - 1) div lmt < pg"
  proof -
    have "int (length rs) \<le> (pg - 1) * lmt"
      using assms(1) that by (rule beyond_last_page)
    then have "length rs \<le> nat ((pg - 1) * lmt)" by linarith
    then show ?thesis by (simp add: slice)
  qed
  show ?thesis using slice tot pgs pgr empty by simp
qed

text \<open>
  Three records with a limit of two: page 2 holds the third record, there are two pages,
  and page 3 is empty with total 3.
\<close>

theorem paginateResults_page_witness:
  "(0::int) < 2 \<and> (1::int) \<le> 3
   \<and> results (paginateResults [mirandaCase, escobedoCase, undatedArticle] 2 2) = [undatedArticle]
   \<and> results (paginateResults [mirandaCase, escobedoCase, undatedArticle] 3 2) = []
   \<and> total (pagination (paginateResults [mirandaCase, escobedoCase, undatedArticle] 3 2)) = 3
   \<and> pages (pagination (paginateResults [mirandaCase, escobedoCase, undatedArticle] 3 2)) = Pages 2"
  using paginateResults_page[of 2 3 "[mirandaCase, escobedoCase, undatedArticle]"]
        paginateResults_page[of 2 2 "[mirandaCase, escobedoCase, undatedArticle]"]
  by simp

section \<open>Properties of the rounding\<close>

lemma roundHalfEven_pos: "1 \<le> y \<Longrightarrow> 1 \<le> roundHalfEven y"
proof -
  assume "1 \<le> y"
  then have "1 \<le> \<lfloor>y\<rfloor>" by linarith
  then show ?thesis by (simp add: roundHalfEven_def Let_def)
qed

lemma exponentOf_lower:
  assumes "0 < a"
  shows "2 powi (exponentOf a - 1) \<le> a"
proof -
  obtain p q where pq: "quotient_of a = (p, q)" by (cases "quotient_of a")
  have q: "0 < q" using pq by (rule quotient_of_denom_pos)
  have a: "a = of_int p / of_int q" using pq by (rule quotient_of_div)
  have p: "0 < p" using assms q a by (simp add: zero_less_divide_iff)
  define d where "d = bitlen p - bitlen q"
  from bitlen_bounds[OF p] have lo: "(2::int) ^ nat (bitlen p - 1) \<le> p" by simp
  from bitlen_bounds[OF q] have hi: "q < (2::int) ^ nat (bitlen q)" by simp
  have bp: "1 \<le> bitlen p" using p by (auto simp: bitlen_alt_def)
  have bq: "0 \<le> bitlen q" by (rule bitlen_nonneg)
  have "(2::rat) powi (bitlen p - 1) = of_int (2 ^ nat (bitlen p - 1))"
    using bp by (simp add: power_int_nonneg_exp)
  also have "\<dots> \<le> of_int p" using lo by (simp only: of_int_le_iff)
  finally have num: "(2::rat) powi (bitlen p - 1) \<le> of_int p" .
  have "(of_int q :: rat) \<le> of_int (2 ^ nat (bitlen q))"
    using hi by (simp only: of_int_le_iff less_imp_le)
  also have "\<dots> = 2 powi (bitlen q)" using bq by (simp add: power_int_nonneg_exp)
  finally have den: "(of_int q :: rat) \<le> 2 powi (bitlen q)" .
  have "(2::rat) powi (d - 1) = 2 powi (bitlen p - 1) / 2 powi (bitlen q)"
    unfolding d_def by (simp add: power_int_diff)
  also have "\<dots> \<le> of_int p / 2 powi (bitlen q)"
    using num by (simp add: divide_right_mono)
  also have "\<dots> \<le> of_int p / of_int q"
    using den p q by (simp add: frac_le)
  finally have low: "(2::rat) powi (d - 1) \<le> a" using a by simp
  have "exponentOf a = d \<or> exponentOf a = d - 1"
    by (simp add: exponentOf_def pq d_def Let_def)
  then show ?thesis
  proof
    assume "exponentOf a = d"
    then show ?thesis using low by simp
  next
    assume e: "exponentOf a = d - 1"
    have "(2::rat) powi (d - 1 - 1) \<le> 2 powi (d - 1)"
      by (rule power_int_increasing) simp_all
    then show ?thesis using low e by simp
  qed
qed

lemma ulp_below:
  assumes "0 < a"
  shows "2 powi (exponentOf a - 52) \<le> a"
proof -
  have "(2::rat) powi (exponentOf a - 52) \<le> 2 powi (exponentOf a - 1)"
    by (rule power_int_increasing) simp_all
  with exponentOf_lower[OF assms] show ?thesis by simp
qed

text \<open>Rounding keeps the sign: a difference is rounded to zero only when it is zero.\<close>

lemma round64_sgn: "sgn (round64 x) = sgn x"
proof (cases "x = 0")
  case True
  then show ?thesis by (simp add: round64_def)
next
  case False
  define a where "a = \<bar>x\<bar>"
  define u where "u = (2::rat) powi (exponentOf a - 52)"
  have a: "0 < a" using False by (simp add: a_def)
  have u: "0 < u" by (simp add: u_def)
  have "u \<le> a" unfolding u_def using a by (rule ulp_below)
  then have "1 \<le> a / u" using u by (simp add: pos_le_divide_eq)
  then have "1 \<le> roundHalfEven (a / u)" by (rule roundHalfEven_pos)
  then have m: "0 < (of_int (roundHalfEven (a / u)) :: rat) * u"
    using u by simp
  have "round64 x = sgn x * (of_int (roundHalfEven (a / u)) * u)"
    using False by (simp add: round64_def Let_def a_def u_def)
  then have "sgn (round64 x) = sgn (sgn x) * sgn (of_int (roundHalfEven (a / u)) * u)"
    by (simp only: sgn_mult)
  also have "\<dots> = sgn x" using m by (simp only: sgn_pos sgn_sgn mult_1_right)
  finally show ?thesis .
qed

lemma round64_le_zero_iff: "round64 x \<le> 0 \<longleftrightarrow> x \<le> 0"
  using round64_sgn[of x] by (auto simp: sgn_if split: if_splits)

text \<open>
  A binary64 sum is not the exact sum: \<open>10 + 269129171968 / 10^10\<close> is rounded to a
  value \<open>2^-47\<close> below \<open>369129171968 / 10^10\<close> as rounded, although the two are equal
  as rationals.
\<close>

lemma binary64_sum_example:
  "round64 (10 + round64 (269129171968 / 10000000000)) = 2597515627072913 / 70368744177664"
  "round64 (369129171968 / 10000000000) = 5195031254145827 / 140737488355328"
  "(10::rat) + 269129171968 / 10000000000 = 369129171968 / 10000000000"
  by code_simp+

section \<open>Properties of the ranking\<close>

lemmas example_defs =
  blankResult_def mirandaCase_def escobedoCase_def undatedArticle_def mirandaReview_def
  dickersonCase_def exampleParseDate_def exampleEngine_def asciiLowerCase_def asciiLowerChar_def

lemma js_error_unique: "(err :: js_error) = TypeError"
  by (cases err) simp

text \<open>\<open>str_includes\<close> is the test for a contiguous occurrence.\<close>

lemma startsWith_iff: "startsWith s n \<longleftrightarrow> (\<exists>t. s = n @ t)"
  by (induction s n rule: startsWith.induct) auto

lemma str_includes_iff: "str_includes s n \<longleftrightarrow> (\<exists>p t. s = p @ n @ t)"
proof (induction s)
  case Nil
  then show ?case by simp
next
  case (Cons c cs)
  show ?case
  proof
    assume "str_includes (c # cs) n"
    then consider "startsWith (c # cs) n" | "str_includes cs n" by auto
    then show "\<exists>p t. c # cs = p @ n @ t"
    proof cases
      case 1
      then obtain t where "c # cs = n @ t" by (auto simp: startsWith_iff)
      then have "c # cs = [] @ n @ t" by simp
      then show ?thesis by blast
    next
      case 2
      then obtain p t where "cs = p @ n @ t" using Cons.IH by blast
      then have "c # cs = (c # p) @ n @ t" by simp
      then show ?thesis by blast
    qed
  next
    assume "\<exists>p t. c # cs = p @ n @ t"
    then obtain p t where eq: "c # cs = p @ n @ t" by blast
    show "str_includes (c # cs) n"
    proof (cases p)
      case Nil
      then have "startsWith (c # cs) n" using eq by (auto simp: startsWith_iff)
      then show ?thesis by simp
    next
      case (Cons a p')
      then have "cs = p' @ n @ t" using eq by simp
      then have "str_includes cs n" using Cons.IH by blast
      then show ?thesis by simp
    qed
  qed
qed

text \<open>The recency term: zero without a date, the parsed milliseconds, or \<open>NaN\<close>.\<close>

lemma dateScore_absent: "\<not> truthy (date a) \<Longrightarrow> dateScore e a = Num 0"
  by (simp add: dateScore_def)

lemma dateScore_parsed:
  "date a = Str d \<Longrightarrow> d \<noteq> [] \<Longrightarrow> dateParse e d = Some ms \<Longrightarrow> \<bar>ms\<bar> \<le> 8640000000000000
     \<Longrightarrow> dateScore e a = Num (of_int ms)"
  by (simp add: dateScore_def getTime_def truthy_def interpolate_def)

lemma dateScore_unparseable:
  "date a = Str d \<Longrightarrow> d \<noteq> [] \<Longrightarrow> dateParse e d = None \<Longrightarrow> dateScore e a = NaN"
  by (simp add: dateScore_def getTime_def truthy_def interpolate_def)

lemma combine_NaN_iff: "combine t c d = NaN \<longleftrightarrow> d = NaN"
  by (cases d) (simp_all add: combine_def js_add_def js_divide_def)

text \<open>The total score of a record with a title and a content, for a given query.\<close>

lemma totalScore_formula:
  assumes "title a = Str t" and "content a = Str c"
  shows "totalScore e (Str q) a
           = Inr (combine (if str_includes (toLowerCase e t) (toLowerCase e q) then 10 else 0)
                          (if str_includes (toLowerCase e c) (toLowerCase e q) then 5 else 0)
                          (dateScore e a))"
  using assms by (simp add: totalScore_def matchScore_def lowerOf_def)

lemma matchScore_Inr_iff:
  "(\<exists>v. matchScore e w field query = Inr v) \<longleftrightarrow> isString field \<and> isString query"
  by (cases field; cases query) (simp_all add: matchScore_def lowerOf_def isString_def)

lemma totalScore_Inr_iff:
  "(\<exists>v. totalScore e query a = Inr v) \<longleftrightarrow>
     isString (title a) \<and> isString (content a) \<and> isString query"
  by (cases "title a"; cases "content a"; cases query)
     (simp_all add: totalScore_def matchScore_def lowerOf_def isString_def)

text \<open>The comparator subtracts the total score of its first argument from that of its second.\<close>

lemma compareRelevance_totalScore:
  "compareRelevance e query a b =
     (case totalScore e query a of
        Inl err \<Rightarrow> Inl TypeError
      | Inr x \<Rightarrow> (case totalScore e query b of
                    Inl err \<Rightarrow> Inl TypeError
                  | Inr y \<Rightarrow> Inr (js_minus y x)))"
  by (cases "title a"; cases "content a"; cases "title b"; cases "content b"; cases query)
     (simp_all add: compareRelevance_def totalScore_def matchScore_def lowerOf_def Let_def)

lemma compareRelevance_Inr_iff:
  "(\<exists>v. compareRelevance e query a b = Inr v) \<longleftrightarrow>
     isString query \<and> isString (title a) \<and> isString (content a)
       \<and> isString (title b) \<and> isString (content b)"
  by (cases "title a"; cases "content a"; cases "title b"; cases "content b"; cases query)
     (simp_all add: compareRelevance_totalScore totalScore_def matchScore_def lowerOf_def
                    isString_def)

lemma compareRelevance_missing_text:
  assumes "\<not> isString (title a) \<or> \<not> isString (content a)
           \<or> \<not> isString (title b) \<or> \<not> isString (content b)"
  shows "compareRelevance e query a b = Inl TypeError"
proof (cases "compareRelevance e query a b")
  case (Inl err)
  then show ?thesis by (simp add: js_error_unique[of err])
next
  case (Inr v)
  then have "\<exists>v. compareRelevance e query a b = Inr v" by blast
  with assms show ?thesis by (auto simp: compareRelevance_Inr_iff)
qed

lemma compareRelevance_numeric:
  assumes "totalScore e query a = Inr (Num x)"
      and "totalScore e query b = Inr (Num y)"
  shows "compareRelevance e query a b = Inr (Num (round64 (y - x)))"
  using assms by (simp add: compareRelevance_totalScore js_minus_def)

lemma scoreValue_numeric:
  "totalScore e query a = Inr (Num x) \<Longrightarrow> scoreValue e query a = x"
  by (simp add: scoreValue_def)

lemma totalScore_numeric_iff:
  "(\<exists>v. totalScore e query a = Inr (Num v)) \<longleftrightarrow>
     isString query \<and> isString (title a) \<and> isString (content a) \<and> dateScore e a \<noteq> NaN"
proof (cases "isString query \<and> isString (title a) \<and> isString (content a)")
  case False
  then have "\<not> (\<exists>v. totalScore e query a = Inr v)" by (auto simp: totalScore_Inr_iff)
  with False show ?thesis by auto
next
  case True
  then obtain t c q where "title a = Str t" "content a = Str c" "query = Str q"
    by (cases "title a"; cases "content a"; cases query) (simp_all add: isString_def)
  then obtain tw cw where "totalScore e query a = Inr (combine tw cw (dateScore e a))"
    using totalScore_formula[of a t c e q] by simp
  then show ?thesis
    using True combine_NaN_iff[of tw cw "dateScore e a"]
    by (cases "combine tw cw (dateScore e a)") auto
qed

text \<open>
  On records whose total scores are numbers the comparator is consistent, the insertion
  is the library's insertion by the key \<open>- score\<close>, and the sort is the library's
  stable sort by that key.
\<close>

lemma cfSign_numeric:
  assumes "totalScore e query a = Inr (Num x)"
      and "totalScore e query b = Inr (Num y)"
  shows "cfSign (compareRelevance e query) a b = Some (sgn (y - x))"
  using assms by (simp add: cfSign_def compareRelevance_numeric round64_sgn)

lemma consistentComparator_numeric:
  assumes "\<forall>z\<in>set xs. \<exists>v. totalScore e query z = Inr (Num v)"
  shows "consistentComparator (compareRelevance e query) xs"
  unfolding consistentComparator_def list_all_iff
proof (intro ballI)
  fix a b c
  assume "a \<in> set xs" "b \<in> set xs" "c \<in> set xs"
  with assms obtain x y z
    where "totalScore e query a = Inr (Num x)"
      and "totalScore e query b = Inr (Num y)"
      and "totalScore e query c = Inr (Num z)"
    by blast
  then show "cfSign (compareRelevance e query) a b \<noteq> None
       \<and> cfSign (compareRelevance e query) a a = Some 0
       \<and> (cfSign (compareRelevance e query) a b = Some 0
            \<longrightarrow> cfSign (compareRelevance e query) b a = Some 0)
       \<and> (cfSign (compareRelevance e query) a b = Some 0
            \<and> cfSign (compareRelevance e query) b c = Some 0
            \<longrightarrow> cfSign (compareRelevance e query) a c = Some 0)
       \<and> (cfSign (compareRelevance e query) a b = Some (- 1)
            \<and> cfSign (compareRelevance e query) b c = Some (- 1)
            \<longrightarrow> cfSign (compareRelevance e query) a c = Some (- 1))
       \<and> (cfSign (compareRelevance e query) a b = Some 1
            \<and> cfSign (compareRelevance e query) b c = Some 1
            \<longrightarrow> cfSign (compareRelevance e query) a c = Some 1)"
    by (simp add: cfSign_numeric sgn_if)
qed

lemma insertSorted_insort_key:
  assumes "\<forall>z\<in>set (x # ys). \<exists>v. totalScore e query z = Inr (Num v)"
  shows "insertSorted (compareRelevance e query) x ys
           = Inr (insort_key (\<lambda>r. - scoreValue e query r) x ys)"
  using assms
proof (induction ys)
  case Nil
  then show ?case by simp
next
  case (Cons y ys)
  from Cons.prems obtain vx vy
    where x: "totalScore e query x = Inr (Num vx)"
      and y: "totalScore e query y = Inr (Num vy)"
    by auto
  have rest: "\<forall>z\<in>set (x # ys). \<exists>v. totalScore e query z = Inr (Num v)"
    using Cons.prems by simp
  show ?case
    using Cons.IH[OF rest] compareRelevance_numeric[OF x y]
    by (simp add: scoreValue_numeric[OF x] scoreValue_numeric[OF y] round64_le_zero_iff)
qed

lemma insertionSort_sort_key:
  assumes "\<forall>z\<in>set xs. \<exists>v. totalScore e query z = Inr (Num v)"
  shows "insertionSort (compareRelevance e query) xs
           = Inr (sort_key (\<lambda>r. - scoreValue e query r) xs)"
  using assms
proof (induction xs)
  case Nil
  then show ?case by simp
next
  case (Cons x xs)
  have tail: "insertionSort (compareRelevance e query) xs
                = Inr (sort_key (\<lambda>r. - scoreValue e query r) xs)"
    using Cons by simp
  have "\<forall>z\<in>set (x # sort_key (\<lambda>r. - scoreValue e query r) xs).
          \<exists>v. totalScore e query z = Inr (Num v)"
    using Cons.prems by simp
  then show ?case
    by (simp add: tail insertSorted_insort_key sort_key_simps)
qed

lemma arraySort_sort_key:
  assumes "\<forall>z\<in>set xs. \<exists>v. totalScore e query z = Inr (Num v)"
  shows "arraySort e (compareRelevance e query) xs
           = Inr (sort_key (\<lambda>r. - scoreValue e query r) xs)"
  using insertionSort_sort_key[OF assms] consistentComparator_numeric[OF assms]
  by (simp add: arraySort_def)

text \<open>A sort that returns has rearranged its input.\<close>

lemma insertSorted_mset:
  "insertSorted cmp x ys = Inr zs \<Longrightarrow> mset zs = add_mset x (mset ys)"
proof (induction ys arbitrary: zs)
  case Nil
  then show ?case by auto
next
  case (Cons y ys)
  then show ?case
    by (auto split: sum.splits jsnum.splits if_splits)
qed

lemma insertionSort_mset:
  "insertionSort cmp xs = Inr ys \<Longrightarrow> mset ys = mset xs"
proof (induction xs arbitrary: ys)
  case Nil
  then show ?case by simp
next
  case (Cons x xs)
  then show ?case
    by (auto split: sum.splits dest: insertSorted_mset)
qed

lemma insertSorted_throws:
  assumes "ys \<noteq> []"
      and "\<forall>y\<in>set ys. cmp x y = Inl TypeError"
  shows "insertSorted cmp x ys = Inl TypeError"
  using assms by (cases ys) simp_all

text \<open>
  An element on which the comparator always throws makes the sort of two or more
  elements throw: every element of such an array is compared at least once.
\<close>

lemma insertionSort_throws:
  assumes "2 \<le> length xs"
      and "r \<in> set xs"
      and "\<forall>y. cmp r y = Inl TypeError \<and> cmp y r = Inl TypeError"
  shows "insertionSort cmp xs = Inl TypeError"
  using assms
proof (induction xs)
  case Nil
  then show ?case by simp
next
  case (Cons x xs)
  show ?case
  proof (cases "insertionSort cmp xs")
    case (Inl err)
    then show ?thesis by (simp add: js_error_unique[of err])
  next
    case (Inr ys)
    have perm: "mset ys = mset xs" using Inr by (rule insertionSort_mset)
    have nonempty: "ys \<noteq> []" using perm Cons.prems(1) by auto
    show ?thesis
    proof (cases "r = x")
      case True
      then have "insertSorted cmp x ys = Inl TypeError"
        using nonempty Cons.prems(3) by (intro insertSorted_throws) simp_all
      then show ?thesis by (simp add: Inr)
    next
      case False
      then have mem: "r \<in> set xs" using Cons.prems(2) by simp
      have short: "length xs < 2"
      proof (rule ccontr)
        assume "\<not> length xs < 2"
        then have "insertionSort cmp xs = Inl TypeError"
          using Cons.IH mem Cons.prems(3) by simp
        with Inr show False by simp
      qed
      then have "xs = [r]" using mem by (cases xs) auto
      then have "ys = [r]" using Inr by simp
      then have "insertSorted cmp x ys = Inl TypeError"
        using Cons.prems(3) by simp
      then show ?thesis by (simp add: Inr)
    qed
  qed
qed

lemma arraySort_throws:
  assumes "2 \<le> length xs"
      and "r \<in> set xs"
      and "\<forall>y. cmp r y = Inl TypeError \<and> cmp y r = Inl TypeError"
  shows "arraySort e cmp xs = Inl TypeError"
  using insertionSort_throws[OF assms] by (simp add: arraySort_def)

lemma sortResultsByRelevance_short:
  "length rs \<le> 1 \<Longrightarrow> sortResultsByRelevance e rs query = Inr rs"
  by (cases rs) (simp_all add: sortResultsByRelevance_def arraySort_def)

text \<open>A request that misses the cache and whose ranking throws is answered with status 500.\<close>

lemma searchHandler_sort_throws:
  assumes "searchCache st (cacheKey req) = None"
      and "aggregateSources up w (paramValue (q_query req)) (paramValue (q_filter req))
             (pageOf req) (limitOf req) (calls st) (scraper st) = (allResults, sent, s1)"
      and "sortResultsByRelevance e (deduplicateResults allResults) (paramValue (q_query req))
             = Inl err"
  shows "searchHandler e up w st req = (Status500, st\<lparr>scraper := s1, calls := sent\<rparr>)"
  using assms by (simp add: searchHandler_def Let_def)

text \<open>
  C1, as amended. When the query is given and every record has a title, a content and a
  date that is absent or parses, the ranking returns a rearrangement of its input in
  descending order of the total score (10 for a title match, 5 for a content match, plus
  the date in milliseconds divided by \<open>10^10\<close>, each sum and quotient rounded as
  binary64 arithmetic rounds it), and the records of equal total score keep their
  relative source order. The order is by the total, not by the text-match component
  first.
\<close>

theorem sortResultsByRelevance_orders_by_total:
  assumes "isString query"
      and "\<forall>r\<in>set rs. isString (title r) \<and> isString (content r) \<and> dateScore e r \<noteq> NaN"
  shows "\<exists>out. sortResultsByRelevance e rs query = Inr out
           \<and> mset out = mset rs
           \<and> sorted_wrt (\<lambda>a b. scoreValue e query b \<le> scoreValue e query a) out
           \<and> (\<forall>k. filter (\<lambda>r. scoreValue e query r = k) out
                     = filter (\<lambda>r. scoreValue e query r = k) rs)"
proof -
  let ?key = "\<lambda>r. - scoreValue e query r"
  have num: "\<forall>z\<in>set rs. \<exists>v. totalScore e query z = Inr (Num v)"
    using assms by (simp add: totalScore_numeric_iff)
  have run: "sortResultsByRelevance e rs query = Inr (sort_key ?key rs)"
    unfolding sortResultsByRelevance_def using num by (rule arraySort_sort_key)
  have "sorted (map ?key (sort_key ?key rs))"
    by (rule sorted_sort_key)
  then have desc: "sorted_wrt (\<lambda>a b. scoreValue e query b \<le> scoreValue e query a)
                     (sort_key ?key rs)"
    by (simp add: sorted_map)
  have stable: "filter (\<lambda>r. scoreValue e query r = k) (sort_key ?key rs)
                  = filter (\<lambda>r. scoreValue e query r = k) rs" for k
    using sort_key_stable[of ?key "- k" rs] by simp
  show ?thesis
    using run desc stable by simp
qed

text \<open>
  Two cases whose dates are 269129171968 and 369129171968 milliseconds after the epoch,
  the first matching the query \<open>miranda\<close> in its title: the exact totals are equal, the
  binary64 totals differ by \<open>2^-47\<close>, and the ranking puts the second case first.
\<close>

lemma binary64_totals:
  "totalScore exampleEngine (Str ''miranda'') mirandaReview
     = Inr (Num (2597515627072913 / 70368744177664))"
  "totalScore exampleEngine (Str ''miranda'') dickersonCase
     = Inr (Num (5195031254145827 / 140737488355328))"
  by code_simp+

lemma binary64_scores:
  "scoreValue exampleEngine (Str ''miranda'') mirandaReview = 2597515627072913 / 70368744177664"
  "scoreValue exampleEngine (Str ''miranda'') dickersonCase = 5195031254145827 / 140737488355328"
  by (simp_all add: scoreValue_def binary64_totals)

lemma binary64_ranking:
  "sortResultsByRelevance exampleEngine [mirandaReview, dickersonCase] (Str ''miranda'')
     = Inr [dickersonCase, mirandaReview]"
proof -
  have "\<exists>v. totalScore exampleEngine (Str ''miranda'') mirandaReview = Inr (Num v)"
       "\<exists>v. totalScore exampleEngine (Str ''miranda'') dickersonCase = Inr (Num v)"
    by (intro exI, rule binary64_totals)+
  then have "\<forall>z\<in>set [mirandaReview, dickersonCase].
          \<exists>v. totalScore exampleEngine (Str ''miranda'') z = Inr (Num v)"
    by simp
  then have "sortResultsByRelevance exampleEngine [mirandaReview, dickersonCase] (Str ''miranda'')
               = Inr (sort_key (\<lambda>r. - scoreValue exampleEngine (Str ''miranda'') r)
                        [mirandaReview, dickersonCase])"
    unfolding sortResultsByRelevance_def by (rule arraySort_sort_key)
  then show ?thesis by (simp add: binary64_scores)
qed

theorem sortResultsByRelevance_orders_by_total_witness:
  "isString (Str ''miranda'')
   \<and> isString (title mirandaReview) \<and> isString (content mirandaReview)
   \<and> dateScore exampleEngine mirandaReview = Num 269129171968
   \<and> isString (title dickersonCase) \<and> isString (content dickersonCase)
   \<and> dateScore exampleEngine dickersonCase = Num 369129171968
   \<and> scoreValue exampleEngine (Str ''miranda'') mirandaReview
       = 2597515627072913 / 70368744177664
   \<and> scoreValue exampleEngine (Str ''miranda'') dickersonCase
       = 5195031254145827 / 140737488355328
   \<and> (\<exists>out. sortResultsByRelevance exampleEngine [mirandaReview, dickersonCase] (Str ''miranda'')
               = Inr out
            \<and> out = [dickersonCase, mirandaReview]
            \<and> mset out = mset [mirandaReview, dickersonCase]
            \<and> sorted_wrt (\<lambda>a b. scoreValue exampleEngine (Str ''miranda'') b
                                  \<le> scoreValue exampleEngine (Str ''miranda'') a) out)"
proof -
  have fields: "isString (title mirandaReview) \<and> isString (content mirandaReview)
                \<and> dateScore exampleEngine mirandaReview = Num 269129171968
                \<and> isString (title dickersonCase) \<and> isString (content dickersonCase)
                \<and> dateScore exampleEngine dickersonCase = Num 369129171968"
    by (simp add: example_defs isString_def dateScore_def getTime_def truthy_def interpolate_def)
  then have ok: "\<forall>r\<in>set [mirandaReview, dickersonCase].
              isString (title r) \<and> isString (content r) \<and> dateScore exampleEngine r \<noteq> NaN"
    by simp
  have q: "isString (Str ''miranda'')" by (simp add: isString_def)
  from sortResultsByRelevance_orders_by_total[OF q ok] obtain out
    where out: "sortResultsByRelevance exampleEngine [mirandaReview, dickersonCase]
                  (Str ''miranda'') = Inr out"
               "mset out = mset [mirandaReview, dickersonCase]"
               "sorted_wrt (\<lambda>a b. scoreValue exampleEngine (Str ''miranda'') b
                                  \<le> scoreValue exampleEngine (Str ''miranda'') a) out"
    by blast
  from out(1) binary64_ranking have "out = [dickersonCase, mirandaReview]" by simp
  with out fields q binary64_scores show ?thesis by blast
qed

text \<open>Two cases dated at the epoch and \<open>10^12\<close> milliseconds later.\<close>

lemma epoch_totals:
  "totalScore exampleEngine (Str ''miranda'') mirandaCase = Inr (Num 10)"
  "totalScore exampleEngine (Str ''miranda'') escobedoCase = Inr (Num 100)"
  by code_simp+

lemma epoch_ranking:
  "sortResultsByRelevance exampleEngine [mirandaCase, escobedoCase] (Str ''miranda'')
     = Inr [escobedoCase, mirandaCase]"
proof -
  have "\<exists>v. totalScore exampleEngine (Str ''miranda'') mirandaCase = Inr (Num v)"
       "\<exists>v. totalScore exampleEngine (Str ''miranda'') escobedoCase = Inr (Num v)"
    by (intro exI, rule epoch_totals)+
  then have "\<forall>z\<in>set [mirandaCase, escobedoCase].
          \<exists>v. totalScore exampleEngine (Str ''miranda'') z = Inr (Num v)"
    by simp
  then have "sortResultsByRelevance exampleEngine [mirandaCase, escobedoCase] (Str ''miranda'')
               = Inr (sort_key (\<lambda>r. - scoreValue exampleEngine (Str ''miranda'') r)
                        [mirandaCase, escobedoCase])"
    unfolding sortResultsByRelevance_def by (rule arraySort_sort_key)
  then show ?thesis by (simp add: scoreValue_def epoch_totals)
qed

lemma epoch_matches:
  "matchScore exampleEngine 10 (title mirandaCase) (Str ''miranda'') = Inr 10"
  "matchScore exampleEngine 5 (content mirandaCase) (Str ''miranda'') = Inr 0"
  "matchScore exampleEngine 10 (title escobedoCase) (Str ''miranda'') = Inr 0"
  "matchScore exampleEngine 5 (content escobedoCase) (Str ''miranda'') = Inr 0"
  by code_simp+

text \<open>
  C1 as stated fails. For the query \<open>miranda\<close>, the first case matches in its title
  (text-match component 10) and is dated at the epoch; the second matches nowhere
  (component 0) and is dated \<open>10^12\<close> milliseconds later, which adds 100 to its score.
  The ranking puts the second before the first.
\<close>

theorem recency_outranks_title_match:
  "matchScore exampleEngine 10 (title mirandaCase) (Str ''miranda'') = Inr 10
   \<and> matchScore exampleEngine 5 (content mirandaCase) (Str ''miranda'') = Inr 0
   \<and> matchScore exampleEngine 10 (title escobedoCase) (Str ''miranda'') = Inr 0
   \<and> matchScore exampleEngine 5 (content escobedoCase) (Str ''miranda'') = Inr 0
   \<and> sortResultsByRelevance exampleEngine [mirandaCase, escobedoCase] (Str ''miranda'')
       = Inr [escobedoCase, mirandaCase]"
  using epoch_matches epoch_ranking by simp

text \<open>
  C2. The score is 10 for a title match plus 5 for a content match plus the recency
  term, and the recency term of a record without a date is zero; but for a record whose
  date is a string that is not a date, the code computes \<open>NaN\<close>, not zero: the recency
  term, the total score and every comparison with the record are \<open>NaN\<close>.
\<close>

theorem unparseable_date_scores_NaN:
  "truthy (date undatedArticle)
   \<and> dateParse exampleEngine ''forthcoming'' = None
   \<and> dateScore exampleEngine undatedArticle = NaN
   \<and> totalScore exampleEngine (Str ''miranda'') undatedArticle = Inr NaN
   \<and> compareRelevance exampleEngine (Str ''miranda'') undatedArticle mirandaCase = Inr NaN
   \<and> compareRelevance exampleEngine (Str ''miranda'') mirandaCase undatedArticle = Inr NaN"
  by code_simp

text \<open>
  C10. The comparator returns a number exactly when the query and the title and content
  of both records are strings. A ranking of two or more records, one of which has no
  title or no content, throws a \<open>TypeError\<close>, and a search request that misses the
  cache and has to rank such records is answered with status 500, with nothing cached
  and nothing stored. The column \<open>content\<close> of \<open>legal_cases\<close> is nullable, so the
  store can return such a record.
\<close>

theorem sortResultsByRelevance_throws_on_missing_text:
  assumes "2 \<le> length rs"
      and "r \<in> set rs"
      and "title r = Undefined \<or> title r = Null \<or> content r = Undefined \<or> content r = Null"
  shows "sortResultsByRelevance e rs query = Inl TypeError
       \<and> (\<forall>a b. (\<exists>v. compareRelevance e query a b = Inr v) \<longleftrightarrow>
                  isString query \<and> isString (title a) \<and> isString (content a)
                    \<and> isString (title b) \<and> isString (content b))
       \<and> (\<forall>up w st req.
             searchCache st (cacheKey req) = None
             \<and> paramValue (q_query req) = query
             \<and> deduplicateResults
                 (fst (aggregateSources up w (paramValue (q_query req)) (paramValue (q_filter req))
                         (pageOf req) (limitOf req) (calls st) (scraper st)))
                 = rs
             \<longrightarrow> searchHandler e up w st req
                   = (Status500,
                      st\<lparr>scraper := snd (snd (aggregateSources up w (paramValue (q_query req))
                                                 (paramValue (q_filter req)) (pageOf req)
                                                 (limitOf req) (calls st) (scraper st))),
                         calls := fst (snd (aggregateSources up w (paramValue (q_query req))
                                               (paramValue (q_filter req)) (pageOf req)
                                               (limitOf req) (calls st) (scraper st)))\<rparr>))"
proof -
  have missing: "\<not> isString (title r) \<or> \<not> isString (content r)"
    using assms(3) by (auto simp: isString_def)
  have "\<forall>y. compareRelevance e query r y = Inl TypeError
           \<and> compareRelevance e query y r = Inl TypeError"
    using missing by (auto intro: compareRelevance_missing_text)
  then have "arraySort e (compareRelevance e query) rs = Inl TypeError"
    using assms(1,2) by (intro arraySort_throws[where r = r]) simp_all
  then have throws: "sortResultsByRelevance e rs query = Inl TypeError"
    by (simp add: sortResultsByRelevance_def)
  have "searchHandler e up w st req
          = (Status500,
             st\<lparr>scraper := snd (snd (aggregateSources up w (paramValue (q_query req))
                                        (paramValue (q_filter req)) (pageOf req)
                                        (limitOf req) (calls st) (scraper st))),
                calls := fst (snd (aggregateSources up w (paramValue (q_query req))
                                      (paramValue (q_filter req)) (pageOf req)
                                      (limitOf req) (calls st) (scraper st)))\<rparr>)"
    if "searchCache st (cacheKey req) = None" and "paramValue (q_query req) = query"
      and "deduplicateResults
             (fst (aggregateSources up w (paramValue (q_query req)) (paramValue (q_filter req))
                     (pageOf req) (limitOf req) (calls st) (scraper st)))
             = rs"
    for up w st req
  proof -
    obtain allResults sent s1
      where agg: "aggregateSources up w (paramValue (q_query req)) (paramValue (q_filter req))
                    (pageOf req) (limitOf req) (calls st) (scraper st) = (allResults, sent, s1)"
      by (cases "aggregateSources up w (paramValue (q_query req)) (paramValue (q_filter req))
                   (pageOf req) (limitOf req) (calls st) (scraper st)") auto
    have "sortResultsByRelevance e (deduplicateResults allResults) (paramValue (q_query req))
            = Inl TypeError"
      using that(2,3) agg throws by simp
    from searchHandler_sort_throws[OF that(1) agg this] show ?thesis
      by (simp add: agg)
  qed
  then have fails: "\<forall>up w st req.
             searchCache st (cacheKey req) = None
             \<and> paramValue (q_query req) = query
             \<and> deduplicateResults
                 (fst (aggregateSources up w (paramValue (q_query req)) (paramValue (q_filter req))
                         (pageOf req) (limitOf req) (calls st) (scraper st)))
                 = rs
             \<longrightarrow> searchHandler e up w st req
                   = (Status500,
                      st\<lparr>scraper := snd (snd (aggregateSources up w (paramValue (q_query req))
                                                 (paramValue (q_filter req)) (pageOf req)
                                                 (limitOf req) (calls st) (scraper st))),
                         calls := fst (snd (aggregateSources up w (paramValue (q_query req))
                                               (paramValue (q_filter req)) (pageOf req)
                                               (limitOf req) (calls st) (scraper st)))\<rparr>)"
    by blast
  have total: "\<forall>a b. (\<exists>v. compareRelevance e query a b = Inr v) \<longleftrightarrow>
                  isString query \<and> isString (title a) \<and> isString (content a)
                    \<and> isString (title b) \<and> isString (content b)"
    by (simp add: compareRelevance_Inr_iff)
  from throws total fails show ?thesis
    by (intro conjI)
qed

text \<open>
  The store holds a case whose content is \<open>NULL\<close>, two APIs return one case each,
  and the limit is 2: the ranking of the three records throws and the request fails.
\<close>

lemma example_aggregate:
  "deduplicateResults
     (fst (aggregateSources exampleUpstream forbiddenWeb (paramValue (q_query mirandaRequest))
             (paramValue (q_filter mirandaRequest)) (pageOf mirandaRequest)
             (limitOf mirandaRequest) (calls freshServer) (scraper freshServer)))
     = [rowObject storedCase, mirandaCase, escobedoCase]"
  by code_simp

theorem sortResultsByRelevance_throws_on_missing_text_witness:
  "2 \<le> length [rowObject storedCase, mirandaCase, escobedoCase]
   \<and> rowObject storedCase \<in> set [rowObject storedCase, mirandaCase, escobedoCase]
   \<and> content (rowObject storedCase) = Null
   \<and> sortResultsByRelevance exampleEngine [rowObject storedCase, mirandaCase, escobedoCase]
        (Str ''miranda'') = Inl TypeError
   \<and> fst (searchHandler exampleEngine exampleUpstream forbiddenWeb freshServer mirandaRequest)
       = Status500
   \<and> searchCache (snd (searchHandler exampleEngine exampleUpstream forbiddenWeb freshServer
                          mirandaRequest)) (cacheKey mirandaRequest) = None"
proof -
  let ?rs = "[rowObject storedCase, mirandaCase, escobedoCase]"
  have len: "2 \<le> length ?rs" by simp
  have mem: "rowObject storedCase \<in> set ?rs" by simp
  have null: "content (rowObject storedCase) = Null"
    by (simp add: rowObject_def storedCase_def nullable_def)
  then have missing: "title (rowObject storedCase) = Undefined \<or> title (rowObject storedCase) = Null
                      \<or> content (rowObject storedCase) = Undefined
                      \<or> content (rowObject storedCase) = Null"
    by simp
  note inst = sortResultsByRelevance_throws_on_missing_text
                [OF len mem missing, of exampleEngine "Str ''miranda''"]
  have q: "paramValue (q_query mirandaRequest) = Str ''miranda''"
    by (simp add: mirandaRequest_def paramValue_def)
  have miss: "searchCache freshServer (cacheKey mirandaRequest) = None"
    by (simp add: freshServer_def)
  have "searchHandler exampleEngine exampleUpstream forbiddenWeb freshServer mirandaRequest
          = (Status500,
             freshServer\<lparr>scraper := snd (snd (aggregateSources exampleUpstream forbiddenWeb
                              (paramValue (q_query mirandaRequest))
                              (paramValue (q_filter mirandaRequest)) (pageOf mirandaRequest)
                              (limitOf mirandaRequest) (calls freshServer) (scraper freshServer))),
                calls := fst (snd (aggregateSources exampleUpstream forbiddenWeb
                              (paramValue (q_query mirandaRequest))
                              (paramValue (q_filter mirandaRequest)) (pageOf mirandaRequest)
                              (limitOf mirandaRequest) (calls freshServer) (scraper freshServer)))\<rparr>)"
    using q miss example_aggregate
    by (intro inst[THEN conjunct2, THEN conjunct2, rule_format,
                   where st = freshServer and req = mirandaRequest
                     and up = exampleUpstream and w = forbiddenWeb]) simp
  then show ?thesis using inst len mem null miss by simp
qed

section \<open>Properties of the search handler\<close>

text \<open>The store results and the requests sent do not depend on one another.\<close>

lemma searchInternalDatabase_sent:
  "snd (searchInternalDatabase store query flt pg lmt sent)
     = sent @ [SearchInternalDatabase (''title.ilike.%'' @ interpolate query
                  @ ''%, content.ilike.%'' @ interpolate query @ ''%'')
                 ((pg - 1) * lmt) (pg * lmt - 1)]"
  by (simp add: searchInternalDatabase_def Let_def split: option.splits)

lemma searchInternalDatabase_results:
  "fst (searchInternalDatabase store query flt pg lmt sent)
     = fst (searchInternalDatabase store query flt pg lmt [])"
  by (simp add: searchInternalDatabase_def Let_def split: option.splits)

text \<open>What the aggregation returns, and the GETs it makes.\<close>

lemma aggregateSources_eq:
  "aggregateSources up w query flt pg lmt sent s =
     (let dbResults = fst (searchInternalDatabase (caseStore up) query flt pg lmt sent);
          apiResults = courtListener up query flt @ caselaw up query flt @ pubMed up query flt;
          sent4 = snd (searchInternalDatabase (caseStore up) query flt pg lmt sent)
                    @ [SearchCourtListener, SearchCaselaw, SearchPubMed]
      in if int (length dbResults + length apiResults) < lmt
         then (dbResults @ apiResults @ fst (scrapeAllowedSources w query flt s), sent4,
               snd (scrapeAllowedSources w query flt s))
         else (dbResults @ apiResults, sent4, s))"
  by (cases "searchInternalDatabase (caseStore up) query flt pg lmt sent";
      cases "scrapeAllowedSources w query flt s")
     (simp add: aggregateSources_def searchCourtListener_def searchCaselaw_def searchPubMed_def
                Let_def)

lemma scrapeAllowedSources_fetched:
  "fetched (snd (scrapeAllowedSources w query flt s))
     = fetched s @ [\<lparr>get_host = ''lawreview.stanford.edu'', get_path = ''/search'',
                     get_term = query\<rparr>]"
  by (simp add: scrapeAllowedSources_def performGet_def Let_def split: option.splits)


text \<open>On a miss, the state of the scraping afterwards is the one the aggregation left.\<close>

lemma searchHandler_miss_scraper:
  assumes "searchCache st (cacheKey req) = None"
  shows "scraper (snd (searchHandler e up w st req))
           = snd (snd (aggregateSources up w (paramValue (q_query req)) (paramValue (q_filter req))
                         (pageOf req) (limitOf req) (calls st) (scraper st)))"
  using assms
  by (cases "aggregateSources up w (paramValue (q_query req)) (paramValue (q_filter req))
               (pageOf req) (limitOf req) (calls st) (scraper st)")
     (auto simp: searchHandler_def Let_def split: sum.splits)

text \<open>Where the aggregation does not scrape, the web plays no part in the answer.\<close>

lemma aggregateSources_without_web:
  assumes "\<not> int (length (fst (searchInternalDatabase (caseStore up) query flt pg lmt sent))
                    + length (courtListener up query flt @ caselaw up query flt
                                @ pubMed up query flt)) < lmt"
  shows "aggregateSources up w' query flt pg lmt sent s
           = aggregateSources up w query flt pg lmt sent s"
  using assms by (simp add: aggregateSources_eq Let_def)

lemma searchHandler_without_web:
  assumes "\<not> int (length (fst (searchInternalDatabase (caseStore up) (paramValue (q_query req))
                                  (paramValue (q_filter req)) (pageOf req) (limitOf req)
                                  (calls st)))
                    + length (courtListener up (paramValue (q_query req))
                                (paramValue (q_filter req))
                              @ caselaw up (paramValue (q_query req)) (paramValue (q_filter req))
                              @ pubMed up (paramValue (q_query req))
                                  (paramValue (q_filter req)))) < limitOf req"
  shows "searchHandler e up w' st req = searchHandler e up w st req"
  unfolding searchHandler_def Let_def
  by (simp only: aggregateSources_without_web[OF assms, of w' "scraper st" w])


text \<open>
  C5. In a search request that runs the aggregation (one that misses the cache), the
  scraping adapter runs exactly when the number of store results plus the number of API
  results is below the limit: in that case the request makes the adapter's GET of the
  search page of lawreview.stanford.edu, and otherwise it makes no GET and its answer
  and the state it leaves are the same whatever the web holds.
\<close>

theorem scraping_only_below_limit:
  assumes "searchCache st (cacheKey req) = None"
  shows "fetched (scraper (snd (searchHandler e up w st req)))
           = fetched (scraper st)
             @ (if int (length (fst (searchInternalDatabase (caseStore up)
                                       (paramValue (q_query req)) (paramValue (q_filter req))
                                       (pageOf req) (limitOf req) (calls st)))
                        + length (courtListener up (paramValue (q_query req))
                                    (paramValue (q_filter req))
                                  @ caselaw up (paramValue (q_query req))
                                      (paramValue (q_filter req))
                                  @ pubMed up (paramValue (q_query req))
                                      (paramValue (q_filter req))))
                     < limitOf req
                then [\<lparr>get_host = ''lawreview.stanford.edu'', get_path = ''/search'',
                       get_term = paramValue (q_query req)\<rparr>]
                else [])
       \<and> (\<not> int (length (fst (searchInternalDatabase (caseStore up)
                                 (paramValue (q_query req)) (paramValue (q_filter req))
                                 (pageOf req) (limitOf req) (calls st)))
                   + length (courtListener up (paramValue (q_query req))
                               (paramValue (q_filter req))
                             @ caselaw up (paramValue (q_query req))
                                 (paramValue (q_filter req))
                             @ pubMed up (paramValue (q_query req))
                                 (paramValue (q_filter req))))
                < limitOf req
            \<longrightarrow> (\<forall>w'. searchHandler e up w' st req = searchHandler e up w st req))"
proof -
  define query where "query = paramValue (q_query req)"
  define flt where "flt = paramValue (q_filter req)"
  define found where
    "found = int (length (fst (searchInternalDatabase (caseStore up) query flt (pageOf req)
                                 (limitOf req) (calls st)))
                  + length (courtListener up query flt @ caselaw up query flt
                            @ pubMed up query flt))"
  have after: "scraper (snd (searchHandler e up w st req))
                 = snd (snd (aggregateSources up w query flt (pageOf req) (limitOf req)
                               (calls st) (scraper st)))"
    unfolding query_def flt_def by (rule searchHandler_miss_scraper[OF assms])
  have gets: "fetched (snd (snd (aggregateSources up w query flt (pageOf req) (limitOf req)
                                   (calls st) (scraper st))))
           = fetched (scraper st)
             @ (if found < limitOf req
                then [\<lparr>get_host = ''lawreview.stanford.edu'', get_path = ''/search'',
                       get_term = query\<rparr>]
                else [])"
  proof (cases "found < limitOf req")
    case True
    then show ?thesis
      unfolding found_def aggregateSources_eq Let_def
      by (simp only: if_True snd_conv scrapeAllowedSources_fetched)
  next
    case False
    then show ?thesis
      unfolding found_def aggregateSources_eq Let_def
      by (simp only: if_False snd_conv append_Nil2)
  qed
  have indep: "\<not> found < limitOf req
                 \<longrightarrow> (\<forall>w'. searchHandler e up w' st req = searchHandler e up w st req)"
    unfolding found_def query_def flt_def
    by (intro impI allI, rule searchHandler_without_web)
  from gets indep show ?thesis
    unfolding after found_def query_def flt_def by (rule conjI)
qed

text \<open>
  With three results and a limit of 2 no GET is made; with one result and the default
  limit of 20 the search page is requested.
\<close>

lemma example_at_limit:
  "\<not> int (length (fst (searchInternalDatabase (caseStore exampleUpstream)
                  (paramValue (q_query mirandaRequest)) (paramValue (q_filter mirandaRequest))
                  (pageOf mirandaRequest) (limitOf mirandaRequest) (calls freshServer)))
     + length (courtListener exampleUpstream (paramValue (q_query mirandaRequest))
                 (paramValue (q_filter mirandaRequest))
               @ caselaw exampleUpstream (paramValue (q_query mirandaRequest))
                   (paramValue (q_filter mirandaRequest))
               @ pubMed exampleUpstream (paramValue (q_query mirandaRequest))
                   (paramValue (q_filter mirandaRequest)))) < limitOf mirandaRequest"
  by (simp add: searchInternalDatabase_def exampleUpstream_def exampleStore_def hasError_def
                limitOf_def mirandaRequest_def Let_def)

lemma example_below_limit:
  "int (length (fst (searchInternalDatabase (caseStore storeOnlyUpstream)
                  (paramValue (q_query gideonRequest)) (paramValue (q_filter gideonRequest))
                  (pageOf gideonRequest) (limitOf gideonRequest) (calls freshServer)))
     + length (courtListener storeOnlyUpstream (paramValue (q_query gideonRequest))
                 (paramValue (q_filter gideonRequest))
               @ caselaw storeOnlyUpstream (paramValue (q_query gideonRequest))
                   (paramValue (q_filter gideonRequest))
               @ pubMed storeOnlyUpstream (paramValue (q_query gideonRequest))
                   (paramValue (q_filter gideonRequest)))) < limitOf gideonRequest"
  by (simp add: searchInternalDatabase_def storeOnlyUpstream_def exampleStore_def hasError_def
                limitOf_def gideonRequest_def Let_def)

theorem scraping_only_below_limit_witness:
  "searchCache freshServer (cacheKey mirandaRequest) = None
   \<and> limitOf mirandaRequest = 2
   \<and> fetched (scraper (snd (searchHandler exampleEngine exampleUpstream forbiddenWeb freshServer
                               mirandaRequest))) = []
   \<and> searchHandler exampleEngine exampleUpstream silentWeb freshServer mirandaRequest
       = searchHandler exampleEngine exampleUpstream forbiddenWeb freshServer mirandaRequest
   \<and> searchCache freshServer (cacheKey gideonRequest) = None
   \<and> limitOf gideonRequest = 20
   \<and> fetched (scraper (snd (searchHandler exampleEngine storeOnlyUpstream silentWeb freshServer
                               gideonRequest)))
       = [\<lparr>get_host = ''lawreview.stanford.edu'', get_path = ''/search'',
           get_term = Str ''gideon''\<rparr>]"
proof -
  have miss1: "searchCache freshServer (cacheKey mirandaRequest) = None"
   and miss2: "searchCache freshServer (cacheKey gideonRequest) = None"
    by (simp_all add: freshServer_def)
  have lim: "limitOf mirandaRequest = 2" "limitOf gideonRequest = 20"
    by (simp_all add: limitOf_def mirandaRequest_def gideonRequest_def)
  have start: "fetched (scraper freshServer) = []"
    by (simp add: freshServer_def freshScraper_def)
  have asked: "paramValue (q_query gideonRequest) = Str ''gideon''"
    by (simp add: gideonRequest_def paramValue_def)
  note at_limit = scraping_only_below_limit[where st = freshServer and req = mirandaRequest
                    and e = exampleEngine and up = exampleUpstream and w = forbiddenWeb, OF miss1]
  note below = scraping_only_below_limit[where st = freshServer and req = gideonRequest
                    and e = exampleEngine and up = storeOnlyUpstream and w = silentWeb, OF miss2]
  have no: "fetched (scraper (snd (searchHandler exampleEngine exampleUpstream forbiddenWeb
                                     freshServer mirandaRequest))) = []"
    using at_limit[THEN conjunct1] by (simp only: example_at_limit if_False append_Nil2 start)
  have same: "searchHandler exampleEngine exampleUpstream silentWeb freshServer mirandaRequest
       = searchHandler exampleEngine exampleUpstream forbiddenWeb freshServer mirandaRequest"
    using at_limit[THEN conjunct2] example_at_limit by blast
  have got: "fetched (scraper (snd (searchHandler exampleEngine storeOnlyUpstream silentWeb
                                      freshServer gideonRequest)))
       = fetched (scraper freshServer)
         @ [\<lparr>get_host = ''lawreview.stanford.edu'', get_path = ''/search'',
             get_term = paramValue (q_query gideonRequest)\<rparr>]"
    using below[THEN conjunct1] by (simp only: example_below_limit if_True)
  have yes: "fetched (scraper (snd (searchHandler exampleEngine storeOnlyUpstream silentWeb
                                      freshServer gideonRequest)))
       = [\<lparr>get_host = ''lawreview.stanford.edu'', get_path = ''/search'',
           get_term = Str ''gideon''\<rparr>]"
    using got by (simp only: start asked append_Nil)
  from miss1 miss2 lim no same yes show ?thesis
    by (intro conjI)
qed

text \<open>A request that misses the cache and whose ranking returns is answered with a page.\<close>

lemma searchHandler_sorted:
  assumes "searchCache st (cacheKey req) = None"
      and "aggregateSources up w (paramValue (q_query req)) (paramValue (q_filter req))
             (pageOf req) (limitOf req) (calls st) (scraper st) = (allResults, sent, s1)"
      and "sortResultsByRelevance e (deduplicateResults allResults) (paramValue (q_query req))
             = Inr sortedResults"
  shows "searchHandler e up w st req
           = (Json (paginateResults sortedResults (pageOf req) (limitOf req)),
              st\<lparr>searchCache := (searchCache st)(cacheKey req \<mapsto>
                                   paginateResults sortedResults (pageOf req) (limitOf req)),
                 scraper := s1,
                 calls := storeResultsInDatabase sortedResults sent\<rparr>)"
  using assms by (simp add: searchHandler_def Let_def)

section \<open>Properties of the cache key\<close>






lemma fresh_miss:
  "searchCache freshServer k = None"
  by (simp add: freshServer_def)





section \<open>Properties of deduplication\<close>

lemma dedupFilter_keys_fresh:
  "set (map dedupKey (dedupFilter seen rs)) \<inter> seen = {}"
  by (induction rs arbitrary: seen) auto

text \<open>The records kept have different keys, and every key of the input is kept once.\<close>

lemma dedupFilter_distinct:
  "distinct (map dedupKey (dedupFilter seen rs))"
proof (induction rs arbitrary: seen)
  case Nil
  then show ?case by simp
next
  case (Cons r rs)
  have "dedupKey r \<notin> set (map dedupKey (dedupFilter (insert (dedupKey r) seen) rs))"
    using dedupFilter_keys_fresh[of "insert (dedupKey r) seen" rs] by auto
  with Cons show ?case by simp
qed

lemma dedupFilter_keys:
  "dedupKey ` set (dedupFilter seen rs) = dedupKey ` set rs - seen"
  by (induction rs arbitrary: seen) auto

lemma deduplicateResults_distinct_keys:
  "distinct (map dedupKey (deduplicateResults rs))"
  by (simp add: deduplicateResults_def dedupFilter_distinct)

lemma deduplicateResults_keeps_first:
  "deduplicateResults (r # rs) = r # dedupFilter {dedupKey r} rs"
  by (simp add: deduplicateResults_def)

lemma dedupFilter_drops_seen:
  "dedupKey r \<in> seen \<Longrightarrow> r \<notin> set (dedupFilter seen rs)"
  using dedupFilter_keys[of seen rs] by blast

text \<open>Records with the same title and the same court-or-source have the same key.\<close>

lemma dedupKey_same_pair:
  "title a = title b \<Longrightarrow> js_or (court a) (source a) = js_or (court b) (source b)
     \<Longrightarrow> dedupKey a = dedupKey b"
  by (simp add: dedupKey_def)

text \<open>Deduplication is idempotent and never lengthens the list.\<close>

lemma dedupFilter_fixed:
  assumes "distinct (map dedupKey xs)" and "dedupKey ` set xs \<inter> seen = {}"
  shows "dedupFilter seen xs = xs"
  using assms by (induction xs arbitrary: seen) auto

lemma deduplicateResults_idempotent:
  "deduplicateResults (deduplicateResults rs) = deduplicateResults rs"
  unfolding deduplicateResults_def
  by (rule dedupFilter_fixed) (simp_all add: dedupFilter_distinct)

lemma dedupFilter_length: "length (dedupFilter seen rs) \<le> length rs"
  by (induction rs arbitrary: seen) (auto simp: le_SucI)

text \<open>
  C3. Two records are meant to be duplicates exactly when they have the same title and
  the same court-or-source, the first one being kept. The code compares the two joined
  with a hyphen: the case \<open>State v. Smith-Jones\<close> of the \<open>County Court\<close> and the case
  \<open>State v. Smith\<close> of the \<open>Jones-County Court\<close> differ in title and in court, get the
  same key, and the second is discarded as a duplicate of the first.
\<close>

theorem hyphen_collision_drops_distinct_record:
  "title smithJonesCase \<noteq> title smithCase
   \<and> js_or (court smithJonesCase) (source smithJonesCase)
       \<noteq> js_or (court smithCase) (source smithCase)
   \<and> dedupKey smithJonesCase = ''State v. Smith-Jones-County Court''
   \<and> dedupKey smithCase = ''State v. Smith-Jones-County Court''
   \<and> deduplicateResults [smithJonesCase, smithCase] = [smithJonesCase]"
  by (simp add: deduplicateResults_def dedupKey_def js_or_def truthy_def interpolate_def
                smithJonesCase_def smithCase_def blankResult_def)

section \<open>Properties of the store adapter and the persistence sink\<close>

text \<open>No record that \<open>searchInternalDatabase\<close> returns carries the flag the sink tests.\<close>

lemma searchInternalDatabase_unflagged:
  "r \<in> set (fst (searchInternalDatabase store query flt pg lmt sent)) \<Longrightarrow> \<not> inDatabase r"
  by (auto simp: searchInternalDatabase_def Let_def rowObject_def split: option.splits if_splits)

lemma storeResultsInDatabase_store_rows:
  "storeResultsInDatabase (fst (searchInternalDatabase store query flt pg lmt sent)) sent'
     = (if fst (searchInternalDatabase store query flt pg lmt sent) = [] then sent'
        else sent' @ [Upsert (map upsertRow
                                (fst (searchInternalDatabase store query flt pg lmt sent)))])"
proof -
  have "filter (\<lambda>r. \<not> inDatabase r) (fst (searchInternalDatabase store query flt pg lmt sent))
          = fst (searchInternalDatabase store query flt pg lmt sent)"
    using searchInternalDatabase_unflagged[of _ store query flt pg lmt sent] by simp
  then show ?thesis by (simp add: storeResultsInDatabase_def Let_def)
qed

text \<open>The request for \<open>gideon\<close> on an upstream in which only the store has a result.\<close>

lemma gideon_aggregate:
  "aggregateSources storeOnlyUpstream silentWeb (paramValue (q_query gideonRequest))
     (paramValue (q_filter gideonRequest)) (pageOf gideonRequest)
     (limitOf gideonRequest) (calls freshServer) (scraper freshServer)
   = ([rowObject storedCase],
      [SearchInternalDatabase ''title.ilike.%gideon%, content.ilike.%gideon%'' 0 19,
       SearchCourtListener, SearchCaselaw, SearchPubMed],
      \<lparr>robotsTxtCache = Map.empty,
       fetched = [\<lparr>get_host = ''lawreview.stanford.edu'', get_path = ''/search'',
                   get_term = Str ''gideon''\<rparr>]\<rparr>)"
  by (simp add: aggregateSources_eq Let_def searchInternalDatabase_def storeOnlyUpstream_def
                exampleStore_def hasError_def gideonRequest_def paramValue_def pageOf_def
                limitOf_def freshServer_def freshScraper_def scrapeAllowedSources_def
                performGet_def silentWeb_def interpolate_def)

lemma gideon_request:
  "searchHandler exampleEngine storeOnlyUpstream silentWeb freshServer gideonRequest
     = (Json (paginateResults [rowObject storedCase] 1 20),
        \<lparr>searchCache = [cacheKey gideonRequest \<mapsto> paginateResults [rowObject storedCase] 1 20],
         scraper = \<lparr>robotsTxtCache = Map.empty,
                    fetched = [\<lparr>get_host = ''lawreview.stanford.edu'', get_path = ''/search'',
                                get_term = Str ''gideon''\<rparr>]\<rparr>,
         calls = [SearchInternalDatabase ''title.ilike.%gideon%, content.ilike.%gideon%'' 0 19,
                  SearchCourtListener, SearchCaselaw, SearchPubMed,
                  Upsert [upsertRow (rowObject storedCase)]]\<rparr>)"
proof -
  have window: "pageOf gideonRequest = 1" "limitOf gideonRequest = 20"
    by (simp_all add: pageOf_def limitOf_def gideonRequest_def)
  have unflagged: "\<not> inDatabase (rowObject storedCase)"
    by (simp add: rowObject_def)
  show ?thesis
    using searchHandler_sorted[OF fresh_miss gideon_aggregate,
            where e = exampleEngine and sortedResults = "[rowObject storedCase]"]
    by (simp add: deduplicateResults_def sortResultsByRelevance_short window unflagged
                  storeResultsInDatabase_def freshServer_def)
qed

text \<open>
  C8. The sink upserts the records whose flag \<open>inDatabase\<close> is not set, but the store
  adapter sets the flag on no record: a case that the store returned for a search is
  passed to \<open>upsert\<close> again at the end of the same request.
\<close>

theorem store_rows_are_upserted_again:
  "fst (searchInternalDatabase exampleStore (Str ''gideon'') Undefined 1 20 [])
     = [rowObject storedCase]
   \<and> inDatabase (rowObject storedCase) = False
   \<and> storeResultsInDatabase [rowObject storedCase] [] = [Upsert [upsertRow (rowObject storedCase)]]
   \<and> cacheKey gideonRequest = ''gideon-undefined-1-20''
   \<and> searchHandler exampleEngine storeOnlyUpstream silentWeb freshServer gideonRequest
       = (Json (paginateResults [rowObject storedCase] 1 20),
          \<lparr>searchCache = [''gideon-undefined-1-20'' \<mapsto> paginateResults [rowObject storedCase] 1 20],
           scraper = \<lparr>robotsTxtCache = Map.empty,
                      fetched = [\<lparr>get_host = ''lawreview.stanford.edu'', get_path = ''/search'',
                                  get_term = Str ''gideon''\<rparr>]\<rparr>,
           calls = [SearchInternalDatabase ''title.ilike.%gideon%, content.ilike.%gideon%'' 0 19,
                    SearchCourtListener, SearchCaselaw, SearchPubMed,
                    Upsert [upsertRow (rowObject storedCase)]]\<rparr>)"
proof -
  have found: "fst (searchInternalDatabase exampleStore (Str ''gideon'') Undefined 1 20 [])
                 = [rowObject storedCase]"
    by (simp add: searchInternalDatabase_def exampleStore_def hasError_def Let_def)
  have unflagged: "inDatabase (rowObject storedCase) = False"
    by (simp add: rowObject_def)
  have upserted: "storeResultsInDatabase [rowObject storedCase] []
                    = [Upsert [upsertRow (rowObject storedCase)]]"
    by (simp add: storeResultsInDatabase_def unflagged)
  have key: "cacheKey gideonRequest = ''gideon-undefined-1-20''"
    by code_simp
  from found unflagged upserted key gideon_request[unfolded key] show ?thesis
    by (intro conjI)
qed

section \<open>Properties of the citation network\<close>

text \<open>The result and the queries of \<open>getCitationNetwork\<close> do not depend on the direction.\<close>

lemma getCitationNetwork_ignores_direction:
  "getCitationNetwork st i direction depth = getCitationNetwork st i direction' depth'"
  by (simp add: getCitationNetwork_def)

text \<open>
  C7. The direction is meant to select the lookups: \<open>citing\<close> only the one by
  \<open>source_id\<close>, \<open>cited\<close> only the one by \<open>target_id\<close>. The code runs both lookups
  and returns both lists for \<open>citing\<close>, and does the same for \<open>cited\<close>.
\<close>

theorem citing_direction_runs_both_queries:
  "getCitationNetwork exampleCitations ''x9'' ''citing'' 1
     = (\<lparr>citedBy = [\<lparr>source_id = ''a1'', source_title = ''Dickerson''\<rparr>],
         cites = [\<lparr>target_id = ''b2'', target_title = ''Escobedo''\<rparr>]\<rparr>,
        [EqTargetId ''x9'', EqSourceId ''x9''])
   \<and> getCitationNetwork exampleCitations ''x9'' ''cited'' 1
     = getCitationNetwork exampleCitations ''x9'' ''citing'' 1"
  by (simp add: getCitationNetwork_def exampleCitations_def orEmpty_def hasError_def Let_def)

section \<open>Properties of the scraping adapters\<close>

lemma scrapeSite_disallowed:
  assumes "\<not> fst (isScrapingAllowed w host path s)"
  shows "scrapeSite w host path selector query s = ([], snd (isScrapingAllowed w host path s))"
  using assms by (cases "isScrapingAllowed w host path s") (simp add: scrapeSite_def Let_def)

lemma getRobotsTxt_fetched:
  "fetched (snd (getRobotsTxt w domain s)) = fetched s
   \<or> fetched (snd (getRobotsTxt w domain s))
        = fetched s @ [\<lparr>get_host = domain, get_path = ''/robots.txt'', get_term = Undefined\<rparr>]"
  by (simp add: getRobotsTxt_def performGet_def Let_def split: option.splits)

text \<open>
  The adapters of the scraper module ask the robots policy first: where it disallows the
  path, they return no result and request nothing but, at most, robots.txt.
\<close>

lemma scrapeSite_respects_robots:
  assumes "\<not> fst (isScrapingAllowed w host path s)"
      and "path \<noteq> ''/robots.txt''"
  shows "fst (scrapeSite w host path selector query s) = []
       \<and> (\<forall>g \<in> set (fetched (snd (scrapeSite w host path selector query s))) - set (fetched s).
             get_path g \<noteq> path)"
proof -
  have run: "scrapeSite w host path selector query s = ([], snd (getRobotsTxt w host s))"
    using scrapeSite_disallowed[OF assms(1)]
    by (simp add: isScrapingAllowed_def Let_def split: prod.splits)
  show ?thesis
    using getRobotsTxt_fetched[of w host s] assms(2) by (auto simp: run)
qed

text \<open>
  C4. A scraping adapter is meant to return nothing and to request nothing from a path
  that the robots policy disallows. On a web whose robots.txt forbids every path,
  \<open>scrapeStanfordLawReview\<close> of the scraper module does so (it requests robots.txt
  only), but \<open>scrapeAllowedSources\<close> of index.js, which the search handler calls,
  requests \<open>/search\<close> of lawreview.stanford.edu and returns its results: it consults no
  robots policy.
\<close>

theorem index_scraper_fetches_despite_robots:
  "fst (isScrapingAllowed forbiddenWeb ''lawreview.stanford.edu'' ''/search'' freshScraper) = False
   \<and> fst (scrapeAllowedSources forbiddenWeb (Str ''miranda'') Undefined freshScraper)
       = [undatedArticle]
   \<and> fetched (snd (scrapeAllowedSources forbiddenWeb (Str ''miranda'') Undefined freshScraper))
       = [\<lparr>get_host = ''lawreview.stanford.edu'', get_path = ''/search'',
           get_term = Str ''miranda''\<rparr>]
   \<and> fst (scrapeStanfordLawReview forbiddenWeb ''miranda'' freshScraper) = []
   \<and> fetched (snd (scrapeStanfordLawReview forbiddenWeb ''miranda'' freshScraper))
       = [\<lparr>get_host = ''lawreview.stanford.edu'', get_path = ''/robots.txt'',
           get_term = Undefined\<rparr>]"
  by (simp add: isScrapingAllowed_def getRobotsTxt_def performGet_def scrapeAllowedSources_def
                scrapeStanfordLawReview_def scrapeSite_def forbiddenWeb_def freshScraper_def
                forbidAll_def Let_def)

end
